theory Spec2Isabelle
  imports Main "HOL-Library.Multiset" "HOL-Library.Sublist"
begin

section \<open>Application state reconciliation: a model of the Go sources\<close>

text \<open>
  The development embeds two files of the controller:
  \<^item> \<^verbatim>\<open>engine/pkg/utils/kube/kube.go\<close>: \<^verbatim>\<open>ResourceKey\<close>, \<^verbatim>\<open>GetAppInstanceLabel\<close>,
    \<^verbatim>\<open>SplitYAML\<close>, \<^verbatim>\<open>WatchWithRetry\<close> and \<^verbatim>\<open>RetryUntilSucceed\<close>;
  \<^item> \<^verbatim>\<open>controller/state.go\<close>: \<^verbatim>\<open>DeduplicateTargetObjects\<close>, \<^verbatim>\<open>getRepoObjs\<close>,
    \<^verbatim>\<open>getComparisonSettings\<close> and \<^verbatim>\<open>CompareAppState\<close>.

  Conventions.
  \<^item> A Go \<^verbatim>\<open>error\<close> is a \<open>string\<close> (its message); a result \<^verbatim>\<open>(v, err)\<close> of a call is
    \<open>error + 'a\<close> with \<open>Inl\<close> the error; a nullable \<^verbatim>\<open>error\<close> that is returned beside
    data is \<open>error option\<close>.
  \<^item> A pointer that the source tests against \<^verbatim>\<open>nil\<close> is an \<open>option\<close>; a pointer that it
    dereferences without a test is the object itself.
  \<^item> A run-time panic (an index out of range) is the value \<open>Inl\<close> of a \<open>panic + 'a\<close>.
  \<^item> Functions and methods of other packages are fields of an environment record or
    parameters; the order in which \<^verbatim>\<open>range\<close> visits a Go map, which the language leaves
    unspecified, is a parameter too.
\<close>

type_synonym error = string

text \<open>\<^verbatim>\<open>time.Duration\<close>: a signed count of nanoseconds.\<close>

type_synonym Duration = int

definition Second :: Duration where
  "Second = 1000000000"

subsection \<open>kube.go: \<^verbatim>\<open>RetryUntilSucceed\<close>\<close>

text \<open>
  \<^verbatim>\<open>RetryUntilSucceed(action, desc, ctx, timeout)\<close> has no result; what it does is the
  sequence of calls of \<^verbatim>\<open>action\<close> and of \<^verbatim>\<open>time.Sleep\<close> it makes. The world it runs in is
  given by two streams: \<open>action i\<close> is what the \<open>i\<close>-th call of the closure returns, and
  \<open>ctxCompleted i\<close> is the value of the flag \<^verbatim>\<open>ctxCompleted\<close> (set by the goroutine that
  waits on \<^verbatim>\<open>ctx.Done()\<close>) as the loop reads it after the \<open>i\<close>-th call has failed.
  The \<^verbatim>\<open>for\<close> loop has no bound, so the model counts iterations down from \<open>fuel\<close>: \<open>None\<close> is
  "still running when the fuel was spent", \<open>Some tr\<close> is "returned, having done \<open>tr\<close>".
\<close>

datatype retry_event = Attempt nat | Sleep Duration

fun RetryUntilSucceed_from ::
  "(nat \<Rightarrow> error option) \<Rightarrow> (nat \<Rightarrow> bool) \<Rightarrow> Duration \<Rightarrow> nat \<Rightarrow> nat \<Rightarrow> retry_event list option"
where
  "RetryUntilSucceed_from action ctxCompleted timeout i 0 = None"
| "RetryUntilSucceed_from action ctxCompleted timeout i (Suc fuel) =
     (case action i of
        None \<Rightarrow> Some [Attempt i]
      | Some err \<Rightarrow>
          if ctxCompleted i then Some [Attempt i]
          else map_option (\<lambda>tr. Attempt i # Sleep timeout # tr)
                 (RetryUntilSucceed_from action ctxCompleted timeout (Suc i) fuel))"

definition RetryUntilSucceed ::
  "(nat \<Rightarrow> error option) \<Rightarrow> (nat \<Rightarrow> bool) \<Rightarrow> Duration \<Rightarrow> nat \<Rightarrow> retry_event list option"
where
  "RetryUntilSucceed action ctxCompleted timeout fuel =
     RetryUntilSucceed_from action ctxCompleted timeout 0 fuel"

text \<open>The calls and sleeps of a run that stops at attempt \<open>k\<close>, counted from attempt \<open>i\<close>.\<close>

fun retry_rounds :: "Duration \<Rightarrow> nat \<Rightarrow> nat \<Rightarrow> retry_event list" where
  "retry_rounds timeout i 0 = [Attempt i]"
| "retry_rounds timeout i (Suc k) = Attempt i # Sleep timeout # retry_rounds timeout (Suc i) k"

subsection \<open>kube.go: \<^verbatim>\<open>WatchWithRetry\<close>\<close>

text \<open>
  \<^verbatim>\<open>WatchWithRetry(ctx, getWatch)\<close> starts a goroutine and returns the channel \<^verbatim>\<open>ch\<close> the
  goroutine writes to. The model is the goroutine: the sequence of things it does, with a
  reader that takes every item off the unbuffered channel.

  The \<open>i\<close>-th call of \<^verbatim>\<open>getWatch\<close> returns an error, or a watch; the inner \<^verbatim>\<open>select\<close> loop
  on that watch receives some events from \<^verbatim>\<open>w.ResultChan()\<close> and then leaves in one of the
  two ways the source has: the result channel is closed (\<^verbatim>\<open>ok\<close> is false), or
  \<^verbatim>\<open>ctx.Done()\<close> is selected. A watch is therefore the list of its events and how it ends.
\<close>

datatype watch_end = ResultChanClosed | CtxDone

type_synonym 'ev watch = "'ev list \<times> watch_end"

text \<open>An item of the output channel: the struct \<^verbatim>\<open>{*watch.Event; Error error}\<close>.\<close>

datatype 'ev watch_item = Event 'ev | Error error

datatype 'ev watch_action =
    GetWatch            \<comment> \<open>\<^verbatim>\<open>getWatch()\<close> is called\<close>
  | Send "'ev watch_item" \<comment> \<open>\<^verbatim>\<open>ch <- item\<close>\<close>
  | StopWatch           \<comment> \<open>the deferred \<^verbatim>\<open>w.Stop()\<close>\<close>
  | SleepFor Duration   \<comment> \<open>\<^verbatim>\<open>time.Sleep\<close>\<close>
  | CloseCh             \<comment> \<open>the deferred \<^verbatim>\<open>close(ch)\<close>\<close>

text \<open>The closure \<^verbatim>\<open>execute\<close>: what it does, and its result \<^verbatim>\<open>(retry, err)\<close>.\<close>

definition execute ::
  "(error + 'ev watch) \<Rightarrow> 'ev watch_action list \<times> bool \<times> error option"
where
  "execute w =
     (case w of
        Inl err \<Rightarrow> ([GetWatch], False, Some err)
      | Inr (events, ending) \<Rightarrow>
          (GetWatch # map (\<lambda>e. Send (Event e)) events @ [StopWatch],
           (case ending of ResultChanClosed \<Rightarrow> True | CtxDone \<Rightarrow> False),
           None))"

text \<open>
  The goroutine's \<^verbatim>\<open>for\<close> loop, from the \<open>i\<close>-th call of \<^verbatim>\<open>getWatch\<close> on. It has no bound,
  so the model counts its iterations down from \<open>fuel\<close>; \<open>None\<close> is "still running".
\<close>

fun WatchWithRetry_from ::
  "(nat \<Rightarrow> error + 'ev watch) \<Rightarrow> nat \<Rightarrow> nat \<Rightarrow> 'ev watch_action list option"
where
  "WatchWithRetry_from getWatch i 0 = None"
| "WatchWithRetry_from getWatch i (Suc fuel) =
     (case execute (getWatch i) of
        (done, retry, err) \<Rightarrow>
          (let sent = (case err of Some e \<Rightarrow> [Send (Error e)] | None \<Rightarrow> [])
           in if \<not> retry then Some (done @ sent @ [CloseCh])
              else map_option (\<lambda>tr. done @ sent @ SleepFor Second # tr)
                     (WatchWithRetry_from getWatch (Suc i) fuel)))"

definition WatchWithRetry ::
  "(nat \<Rightarrow> error + 'ev watch) \<Rightarrow> nat \<Rightarrow> 'ev watch_action list option"
where
  "WatchWithRetry getWatch fuel = WatchWithRetry_from getWatch 0 fuel"

text \<open>What the goroutine does with a watch that delivers \<open>events\<close> and is then closed.\<close>

definition closed_session :: "'ev list \<Rightarrow> 'ev watch_action list" where
  "closed_session events =
     GetWatch # map (\<lambda>e. Send (Event e)) events @ [StopWatch, SleepFor Second]"

text \<open>A watch factory that fails at every call, and one whose first watch is closed
  after two events and whose second call fails.\<close>

definition getWatch_failing :: "nat \<Rightarrow> error + nat watch" where
  "getWatch_failing i = Inl ''the server could not find the requested resource''"

definition getWatch_closed_then_failing :: "nat \<Rightarrow> error + nat watch" where
  "getWatch_closed_then_failing i =
     (if i = 0 then Inr ([10, 11], ResultChanClosed) else Inl ''connection refused'')"

subsection \<open>kube.go: objects, resource keys, labels\<close>

text \<open>
  An \<^verbatim>\<open>unstructured.Unstructured\<close> object, by the accessors the two files use:
  \<^verbatim>\<open>GroupVersionKind()\<close> (group, version, kind), \<^verbatim>\<open>GetNamespace()\<close>, \<^verbatim>\<open>GetName()\<close>,
  \<^verbatim>\<open>GetLabels()\<close> (a map that may be \<^verbatim>\<open>nil\<close>), the annotations (read by the hook,
  ignore and compare-option helpers) and the rest of the document.
\<close>

record Unstructured =
  objGroup :: string
  objVersion :: string
  objKind :: string
  objNamespace :: string
  objName :: string
  objLabels :: "(string \<times> string) list option"
  objAnnotations :: "(string \<times> string) list"
  objRest :: string

type_synonym GroupKind = "string \<times> string"

definition GroupKind :: "Unstructured \<Rightarrow> GroupKind" where
  "GroupKind obj = (objGroup obj, objKind obj)"

definition SetNamespace :: "string \<Rightarrow> Unstructured \<Rightarrow> Unstructured" where
  "SetNamespace namespace obj = obj\<lparr>objNamespace := namespace\<rparr>"

text \<open>\<^verbatim>\<open>ResourceInfoProvider\<close>: the one method \<^verbatim>\<open>IsNamespaced(gk) (bool, error)\<close>.\<close>

type_synonym ResourceInfoProvider = "GroupKind \<Rightarrow> bool \<times> error option"

record ResourceKey =
  Group :: string
  Kind :: string
  Namespace :: string
  Name :: string

definition String :: "ResourceKey \<Rightarrow> string" where
  "String k = Group k @ ''/'' @ Kind k @ ''/'' @ Namespace k @ ''/'' @ Name k"

definition NewResourceKey :: "string \<Rightarrow> string \<Rightarrow> string \<Rightarrow> string \<Rightarrow> ResourceKey" where
  "NewResourceKey grp kind namespace name =
     \<lparr>Group = grp, Kind = kind, Namespace = namespace, Name = name\<rparr>"

definition GetResourceKey :: "Unstructured \<Rightarrow> ResourceKey" where
  "GetResourceKey obj = NewResourceKey (objGroup obj) (objKind obj) (objNamespace obj) (objName obj)"

definition GetAppInstanceLabel :: "Unstructured \<Rightarrow> string \<Rightarrow> string" where
  "GetAppInstanceLabel un key =
     (case objLabels un of
        Some labels \<Rightarrow> (case map_of labels key of Some v \<Rightarrow> v | None \<Rightarrow> [])
      | None \<Rightarrow> [])"

subsection \<open>kube.go: \<^verbatim>\<open>SplitYAML\<close>\<close>

text \<open>
  \<^verbatim>\<open>diffSeparator.Split(out, -1)\<close> with the pattern \<^verbatim>\<open>\n---\<close>: the pieces of \<open>out\<close> between
  the successive leftmost occurrences of the four characters, the piece after the last
  occurrence included (so there is always at least one piece).
\<close>

definition diffSeparator :: string where
  "diffSeparator = [CHR 0x0A, CHR ''-'', CHR ''-'', CHR ''-'']"

function Split_from :: "string \<Rightarrow> string \<Rightarrow> string list" where
  "Split_from cur [] = [cur]"
| "Split_from cur (c # cs) =
     (if prefix diffSeparator (c # cs)
      then cur # Split_from [] (drop (length diffSeparator) (c # cs))
      else Split_from (cur @ [c]) cs)"
  by pat_completeness auto
termination
  by (relation "measure (\<lambda>(cur, rest). length rest)") (auto simp: diffSeparator_def)

definition Split :: "string \<Rightarrow> string list" where
  "Split out = Split_from [] out"

text \<open>
  \<^verbatim>\<open>yaml.Unmarshal\<close> is a function of another module, called with two targets: a
  \<^verbatim>\<open>map[string]interface{}\<close> (of which the source reads the length only) and an
  \<^verbatim>\<open>unstructured.Unstructured\<close>. Both are parameters.
\<close>

record yaml =
  Unmarshal_map :: "string \<Rightarrow> error + (string \<times> string) list"
  Unmarshal_obj :: "string \<Rightarrow> error + Unstructured"

definition unmarshal_failure :: "error \<Rightarrow> error" where
  "unmarshal_failure err = ''Failed to unmarshal manifest: '' @ err"

fun SplitYAML_parts ::
  "yaml \<Rightarrow> string list \<Rightarrow> Unstructured list \<Rightarrow> error option \<Rightarrow> Unstructured list \<times> error option"
where
  "SplitYAML_parts y [] objs firstErr = (objs, firstErr)"
| "SplitYAML_parts y (part # parts) objs firstErr =
     (case Unmarshal_map y part of
        Inl err \<Rightarrow>
          SplitYAML_parts y parts objs
            (if firstErr = None then Some (unmarshal_failure err) else firstErr)
      | Inr objMap \<Rightarrow>
          if length objMap = 0 then SplitYAML_parts y parts objs firstErr
          else (case Unmarshal_obj y part of
                  Inl err \<Rightarrow>
                    SplitYAML_parts y parts objs
                      (if firstErr = None then Some (unmarshal_failure err) else firstErr)
                | Inr obj \<Rightarrow> SplitYAML_parts y parts (objs @ [obj]) firstErr))"

definition SplitYAML :: "yaml \<Rightarrow> string \<Rightarrow> Unstructured list \<times> error option" where
  "SplitYAML y out = SplitYAML_parts y (Split out) [] None"

text \<open>Whether a part makes the loop record an error: one of its two parses fails.\<close>

definition part_fails :: "yaml \<Rightarrow> string \<Rightarrow> bool" where
  "part_fails y part =
     (case Unmarshal_map y part of
        Inl err \<Rightarrow> True
      | Inr objMap \<Rightarrow> length objMap \<noteq> 0 \<and> isl (Unmarshal_obj y part))"

text \<open>The error a failing part records.\<close>

definition part_error :: "yaml \<Rightarrow> string \<Rightarrow> error" where
  "part_error y part =
     (case Unmarshal_map y part of
        Inl err \<Rightarrow> unmarshal_failure err
      | Inr objMap \<Rightarrow> (case Unmarshal_obj y part of Inl err \<Rightarrow> unmarshal_failure err | Inr obj \<Rightarrow> []))"

text \<open>The objects a part contributes: one, when it parses to a map that is not empty.\<close>

definition part_objs :: "yaml \<Rightarrow> string \<Rightarrow> Unstructured list" where
  "part_objs y part =
     (case Unmarshal_map y part of
        Inl err \<Rightarrow> []
      | Inr objMap \<Rightarrow>
          if length objMap = 0 then []
          else (case Unmarshal_obj y part of Inl err \<Rightarrow> [] | Inr obj \<Rightarrow> [obj]))"

text \<open>
  A parser for the examples: it reads the one-line document \<^verbatim>\<open>kind: ConfigMap\<close> (with
  or without a leading line break), takes an empty document as the empty map, and rejects
  everything else the way the YAML library words it.
\<close>

definition configMap :: Unstructured where
  "configMap = \<lparr>objGroup = [], objVersion = ''v1'', objKind = ''ConfigMap'', objNamespace = [],
     objName = [], objLabels = None, objAnnotations = [], objRest = []\<rparr>"

definition yaml_example :: yaml where
  "yaml_example =
     \<lparr>Unmarshal_map = (\<lambda>part.
        if part = ''kind: ConfigMap'' \<or> part = CHR 0x0A # ''kind: ConfigMap''
        then Inr [(''kind'', ''ConfigMap'')]
        else if part = [] \<or> part = [CHR 0x0A] then Inr []
        else Inl ''error converting YAML to JSON: yaml: did not find expected node content''),
      Unmarshal_obj = (\<lambda>part.
        if part = ''kind: ConfigMap'' \<or> part = CHR 0x0A # ''kind: ConfigMap''
        then Inr configMap
        else Inl ''error converting YAML to JSON: yaml: did not find expected node content'')\<rparr>"

text \<open>Two documents: the first is a ConfigMap, the second is the text \<^verbatim>\<open>{\<close>.\<close>

definition manifest_good_then_bad :: string where
  "manifest_good_then_bad = ''kind: ConfigMap'' @ diffSeparator @ [CHR 0x0A] @ ''{''"

subsection \<open>state.go: the types\<close>

text \<open>
  \<^verbatim>\<open>SyncStatusCode\<close> and \<^verbatim>\<open>HealthStatusCode\<close> are string types of the API package.
  \<open>SyncStatusCodeNone\<close> is the empty string, the value of a \<^verbatim>\<open>Status\<close> field that was
  never assigned.
\<close>

datatype SyncStatusCode =
  SyncStatusCodeNone | SyncStatusCodeUnknown | SyncStatusCodeSynced | SyncStatusCodeOutOfSync

datatype HealthStatusCode =
  HealthStatusUnknown | HealthStatusProgressing | HealthStatusHealthy | HealthStatusSuspended
  | HealthStatusDegraded | HealthStatusMissing

datatype ApplicationConditionType =
  ApplicationConditionComparisonError | ApplicationConditionSharedResourceWarning
  | ApplicationConditionRepeatedResourceWarning | ApplicationConditionExcludedResourceWarning

text \<open>\<^verbatim>\<open>metav1.Time\<close>: a reading of the clock.\<close>

type_synonym Time = nat

record ApplicationCondition =
  Type :: ApplicationConditionType
  Message :: string
  LastTransitionTime :: "Time option"

record ApplicationSource =
  RepoURL :: string
  Path :: string
  TargetRevision :: string

record ApplicationDestination =
  Server :: string
  destNamespace :: string

text \<open>An application: \<^verbatim>\<open>app.Name\<close>, \<^verbatim>\<open>app.Spec.Destination\<close>, \<^verbatim>\<open>app.Spec.IgnoreDifferences\<close>.\<close>

record Application =
  appName :: string
  appDestination :: ApplicationDestination
  appIgnoreDifferences :: "string list"

text \<open>A project, by the two methods \<^verbatim>\<open>CompareAppState\<close> calls on it.\<close>

record AppProject =
  IsLiveResourcePermitted :: "Unstructured option \<Rightarrow> string \<Rightarrow> bool"
  IsGroupKindPermitted :: "GroupKind \<Rightarrow> bool \<Rightarrow> bool"

record ComparedTo =
  Source :: ApplicationSource
  Destination :: ApplicationDestination

record SyncStatus =
  ss_ComparedTo :: ComparedTo
  ss_Status :: SyncStatusCode
  ss_Revision :: string

record HealthStatus =
  hs_Status :: HealthStatusCode
  hs_Message :: string

record ResourceStatus =
  rs_Group :: string
  rs_Version :: string
  rs_Kind :: string
  rs_Namespace :: string
  rs_Name :: string
  rs_Status :: SyncStatusCode
  rs_Hook :: bool
  rs_RequiresPruning :: bool

record DiffResult =
  Modified :: bool
  NormalizedLive :: string
  PredictedLive :: string

record DiffResultList =
  Diffs :: "DiffResult list"
  dl_Modified :: bool

record managedResource =
  mr_Target :: "Unstructured option"
  mr_Live :: "Unstructured option"
  mr_Diff :: DiffResult
  mr_Group :: string
  mr_Version :: string
  mr_Kind :: string
  mr_Namespace :: string
  mr_Name :: string
  mr_Hook :: bool

record ReconciliationResult =
  Target :: "Unstructured option list"
  Live :: "Unstructured option list"

text \<open>Values of other packages that the two files only pass on.\<close>

type_synonym ResourceOverrides = "(string \<times> string) list"

datatype Normalizer = Normalizer nat

type_synonym Repository = string

type_synonym ConfigManagementPlugin = string

record comparisonResult =
  syncStatus :: "SyncStatus option"
  healthStatus :: "HealthStatus option"
  resources :: "ResourceStatus list"
  managedResources :: "managedResource list"
  reconciliationResult :: ReconciliationResult
  diffNormalizer :: "Normalizer option"
  appSourceType :: string

record ManifestRequest =
  req_Repo :: Repository
  req_Repos :: "Repository list"
  req_Revision :: string
  req_NoCache :: bool
  req_AppLabelKey :: string
  req_AppLabelValue :: string
  req_Namespace :: string
  req_ApplicationSource :: ApplicationSource
  req_Plugins :: "ConfigManagementPlugin list"
  req_KustomizeOptions :: string
  req_KubeVersion :: string

record ManifestResponse =
  Manifests :: "string list"
  Revision :: string
  SourceType :: string

text \<open>A Go map from resource keys, with the order in which \<^verbatim>\<open>range\<close> visits it.\<close>

type_synonym 'v keyed = "(ResourceKey \<times> 'v) list"

datatype panic = IndexOutOfRange

text \<open>The zero values of the structs.\<close>

definition zeroDiffResult :: DiffResult where
  "zeroDiffResult = \<lparr>Modified = False, NormalizedLive = [], PredictedLive = []\<rparr>"

definition zeroResourceStatus :: ResourceStatus where
  "zeroResourceStatus =
     \<lparr>rs_Group = [], rs_Version = [], rs_Kind = [], rs_Namespace = [], rs_Name = [],
      rs_Status = SyncStatusCodeNone, rs_Hook = False, rs_RequiresPruning = False\<rparr>"

definition zeroManagedResource :: managedResource where
  "zeroManagedResource =
     \<lparr>mr_Target = None, mr_Live = None, mr_Diff = zeroDiffResult, mr_Group = [], mr_Version = [],
      mr_Kind = [], mr_Namespace = [], mr_Name = [], mr_Hook = False\<rparr>"

subsection \<open>state.go: the collaborators\<close>

text \<open>
  What \<^verbatim>\<open>CompareAppState\<close> calls and does not define. The first group are methods of
  the fields of the receiver \<^verbatim>\<open>m *appStateManager\<close> (\<^verbatim>\<open>settingsMgr\<close>, \<^verbatim>\<open>db\<close>,
  \<^verbatim>\<open>repoClientset\<close>, \<^verbatim>\<open>liveStateCache\<close>); the second group are functions of the packages
  \<^verbatim>\<open>v1alpha1\<close>, \<^verbatim>\<open>argo\<close>, \<^verbatim>\<open>sync\<close>, \<^verbatim>\<open>diff\<close>, \<^verbatim>\<open>hook\<close>, \<^verbatim>\<open>ignore\<close>, \<^verbatim>\<open>resource\<close>, \<^verbatim>\<open>common\<close> and
  \<^verbatim>\<open>argohealth\<close>; the last three are the clock (\<^verbatim>\<open>metav1.Now()\<close> in \<^verbatim>\<open>CompareAppState\<close>, and
  the successive calls in \<^verbatim>\<open>DeduplicateTargetObjects\<close>) and the order in which \<^verbatim>\<open>range\<close>
  visits the map \<^verbatim>\<open>targetByKey\<close>.
\<close>

record appStateManager =
  GetResourceOverrides :: "error + ResourceOverrides"
  GetAppInstanceLabelKey :: "error + string"
  GetConfigManagementPlugins :: "error + ConfigManagementPlugin list"
  GetKustomizeBuildOptions :: "error + string"
  GetResourcesFilter :: "error + (string \<Rightarrow> string \<Rightarrow> string \<Rightarrow> bool)"
  ListHelmRepositories :: "error + Repository list"
  GetRepository :: "string \<Rightarrow> error + Repository"
  NewRepoServerClient :: "error + unit"
  GenerateManifest :: "ManifestRequest \<Rightarrow> error + ManifestResponse"
  GetServerVersion :: "string \<Rightarrow> error + string"
  GetClusterCache :: "string \<Rightarrow> error + ResourceInfoProvider"
  GetManagedLiveObjs :: "Application \<Rightarrow> Unstructured list \<Rightarrow> error + Unstructured option keyed"
  IsNamespaced :: "string \<Rightarrow> GroupKind \<Rightarrow> bool \<times> error option"
  UnmarshalToUnstructured :: "string \<Rightarrow> error + Unstructured"
  NewDiffNormalizer :: "string list \<Rightarrow> ResourceOverrides \<Rightarrow> error + Normalizer"
  Reconcile ::
    "Unstructured list \<Rightarrow> Unstructured option keyed \<Rightarrow> string \<Rightarrow> ResourceInfoProvider
      \<Rightarrow> ReconciliationResult"
  DiffArray ::
    "Unstructured option list \<Rightarrow> Unstructured option list \<Rightarrow> Normalizer \<Rightarrow> error + DiffResultList"
  IsHook :: "Unstructured \<Rightarrow> bool"
  Ignore :: "Unstructured \<Rightarrow> bool"
  HasAnnotationOption :: "Unstructured \<Rightarrow> string \<Rightarrow> string \<Rightarrow> bool"
  AnnotationCompareOptions :: string
  SetApplicationHealth ::
    "Application \<Rightarrow> ResourceStatus list \<Rightarrow> Unstructured option list \<Rightarrow> ResourceOverrides
      \<Rightarrow> HealthStatus option \<times> error option"
  Now :: Time
  dedupNow :: "nat \<Rightarrow> Time"
  rangeTargetByKey :: "Unstructured list keyed \<Rightarrow> Unstructured list keyed"

subsection \<open>state.go: \<^verbatim>\<open>unmarshalManifests\<close> and \<^verbatim>\<open>getRepoObjs\<close>\<close>

fun unmarshalManifests_from ::
  "appStateManager \<Rightarrow> string list \<Rightarrow> Unstructured list \<Rightarrow> error + Unstructured list"
where
  "unmarshalManifests_from m [] targetObjs = Inr targetObjs"
| "unmarshalManifests_from m (manifest # manifests) targetObjs =
     (case UnmarshalToUnstructured m manifest of
        Inl err \<Rightarrow> Inl err
      | Inr obj \<Rightarrow> unmarshalManifests_from m manifests (targetObjs @ [obj]))"

definition unmarshalManifests :: "appStateManager \<Rightarrow> string list \<Rightarrow> error + Unstructured list" where
  "unmarshalManifests m manifests = unmarshalManifests_from m manifests []"

definition getRepoObjs ::
  "appStateManager \<Rightarrow> Application \<Rightarrow> ApplicationSource \<Rightarrow> string \<Rightarrow> string \<Rightarrow> bool
    \<Rightarrow> error + (Unstructured list \<times> ManifestResponse)"
where
  "getRepoObjs m app source appLabelKey revision noCache =
     (case ListHelmRepositories m of Inl err \<Rightarrow> Inl err | Inr helmRepos \<Rightarrow>
      case GetRepository m (RepoURL source) of Inl err \<Rightarrow> Inl err | Inr repo \<Rightarrow>
      case NewRepoServerClient m of Inl err \<Rightarrow> Inl err | Inr repoClient \<Rightarrow>
      let revision' = (if revision = [] then TargetRevision source else revision) in
      case GetConfigManagementPlugins m of Inl err \<Rightarrow> Inl err | Inr plugins \<Rightarrow>
      case GetKustomizeBuildOptions m of Inl err \<Rightarrow> Inl err | Inr buildOptions \<Rightarrow>
      case GetServerVersion m (Server (appDestination app)) of Inl err \<Rightarrow> Inl err | Inr serverVersion \<Rightarrow>
      case GenerateManifest m
             \<lparr>req_Repo = repo, req_Repos = helmRepos, req_Revision = revision',
              req_NoCache = noCache, req_AppLabelKey = appLabelKey, req_AppLabelValue = appName app,
              req_Namespace = destNamespace (appDestination app), req_ApplicationSource = source,
              req_Plugins = plugins, req_KustomizeOptions = buildOptions,
              req_KubeVersion = serverVersion\<rparr> of
        Inl err \<Rightarrow> Inl err
      | Inr manifestInfo \<Rightarrow>
      case unmarshalManifests m (Manifests manifestInfo) of
        Inl err \<Rightarrow> Inl err
      | Inr targetObjs \<Rightarrow> Inr (targetObjs, manifestInfo))"

subsection \<open>state.go: \<^verbatim>\<open>DeduplicateTargetObjects\<close>\<close>

text \<open>The verb \<^verbatim>\<open>%d\<close> of \<^verbatim>\<open>fmt.Sprintf\<close> on a length: the decimal digits.\<close>

fun itoa :: "nat \<Rightarrow> string" where
  "itoa n = (if n < 10 then [''0123456789'' ! n] else itoa (n div 10) @ [''0123456789'' ! (n mod 10)])"

declare itoa.simps [simp del]

text \<open>
  Lines 176 to 181: the namespace of a target is emptied when its kind is not namespaced
  and set to the destination namespace when it is namespaced and has none. The source
  binds the result of \<^verbatim>\<open>IsNamespaced\<close> to the one variable \<^verbatim>\<open>isNamespaced\<close>: the model
  takes the boolean and leaves the error.
\<close>

definition imputeNamespace :: "string \<Rightarrow> ResourceInfoProvider \<Rightarrow> Unstructured \<Rightarrow> Unstructured" where
  "imputeNamespace namespace infoProvider obj =
     (let isNamespaced = fst (infoProvider (GroupKind obj))
      in if \<not> isNamespaced then SetNamespace [] obj
         else if objNamespace obj = [] then SetNamespace namespace obj
         else obj)"

text \<open>\<^verbatim>\<open>targetByKey[key] = append(targetByKey[key], obj)\<close>\<close>

fun appendTarget ::
  "ResourceKey \<Rightarrow> Unstructured \<Rightarrow> Unstructured list keyed \<Rightarrow> Unstructured list keyed"
where
  "appendTarget key obj [] = [(key, [obj])]"
| "appendTarget key obj ((k, targets) # targetByKey) =
     (if k = key then (k, targets @ [obj]) # targetByKey
      else (k, targets) # appendTarget key obj targetByKey)"

text \<open>The first loop. The objects are pointers: the object stored (and later returned) is
  the input object with its namespace rewritten.\<close>

fun groupTargets ::
  "string \<Rightarrow> ResourceInfoProvider \<Rightarrow> Unstructured list \<Rightarrow> Unstructured list keyed
    \<Rightarrow> Unstructured list keyed"
where
  "groupTargets namespace infoProvider [] targetByKey = targetByKey"
| "groupTargets namespace infoProvider (obj # objs) targetByKey =
     (let obj' = imputeNamespace namespace infoProvider obj;
          key = GetResourceKey obj'
      in groupTargets namespace infoProvider objs (appendTarget key obj' targetByKey))"

definition repeatedResourceMessage :: "ResourceKey \<Rightarrow> nat \<Rightarrow> string" where
  "repeatedResourceMessage key n =
     ''Resource '' @ String key @ '' appeared '' @ itoa n @ '' times among application resources.''"

text \<open>
  The second loop, over the entries of \<^verbatim>\<open>targetByKey\<close> in the order \<^verbatim>\<open>range\<close> yields them.
  Each warning reads the clock once more: the reading is numbered by the warnings made so
  far. Every list stored by the first loop has an element (lemma \<open>groupTargets_nonempty\<close>
  below), so \<^verbatim>\<open>targets[len(targets)-1]\<close> is the last one.
\<close>

fun rangeTargets ::
  "(nat \<Rightarrow> Time) \<Rightarrow> Unstructured list keyed \<Rightarrow> ApplicationCondition list \<Rightarrow> Unstructured list
    \<Rightarrow> Unstructured list \<times> ApplicationCondition list"
where
  "rangeTargets clock [] conditions result = (result, conditions)"
| "rangeTargets clock ((key, targets) # entries) conditions result =
     (let conditions' =
            (if length targets > 1
             then conditions @
                    [\<lparr>Type = ApplicationConditionRepeatedResourceWarning,
                      Message = repeatedResourceMessage key (length targets),
                      LastTransitionTime = Some (clock (length conditions))\<rparr>]
             else conditions)
      in rangeTargets clock entries conditions' (result @ [last targets]))"

definition DeduplicateTargetObjects ::
  "(Unstructured list keyed \<Rightarrow> Unstructured list keyed) \<Rightarrow> (nat \<Rightarrow> Time)
    \<Rightarrow> string \<Rightarrow> Unstructured list \<Rightarrow> ResourceInfoProvider
    \<Rightarrow> Unstructured list \<times> ApplicationCondition list \<times> error option"
where
  "DeduplicateTargetObjects visit clock namespace objs infoProvider =
     (let targetByKey = groupTargets namespace infoProvider objs []
      in case rangeTargets clock (visit targetByKey) [] [] of
           (result, conditions) \<Rightarrow> (result, conditions, None))"

text \<open>
  An order of iteration is a rearrangement of the entries of the map: \<^verbatim>\<open>range\<close> visits
  every entry once.
\<close>

definition rangeOrder :: "('v keyed \<Rightarrow> 'v keyed) \<Rightarrow> bool" where
  "rangeOrder visit = (\<forall>entries. mset (visit entries) = mset entries)"

text \<open>\<^verbatim>\<open>resourceInfoProviderStub\<close>: \<^verbatim>\<open>IsNamespaced\<close> returns \<^verbatim>\<open>false, nil\<close>.\<close>

definition resourceInfoProviderStub :: ResourceInfoProvider where
  "resourceInfoProviderStub gk = (False, None)"

subsection \<open>state.go: \<^verbatim>\<open>getComparisonSettings\<close>\<close>

definition getComparisonSettings ::
  "appStateManager \<Rightarrow> Application \<Rightarrow> error + (string \<times> ResourceOverrides \<times> Normalizer)"
where
  "getComparisonSettings m app =
     (case GetResourceOverrides m of Inl err \<Rightarrow> Inl err | Inr resourceOverrides \<Rightarrow>
      case GetAppInstanceLabelKey m of Inl err \<Rightarrow> Inl err | Inr appLabelKey \<Rightarrow>
      case NewDiffNormalizer m (appIgnoreDifferences app) resourceOverrides of
        Inl err \<Rightarrow> Inl err
      | Inr normalizer \<Rightarrow> Inr (appLabelKey, resourceOverrides, normalizer))"

subsection \<open>state.go: the stages of \<^verbatim>\<open>CompareAppState\<close>\<close>

definition comparisonError :: "error \<Rightarrow> Time \<Rightarrow> ApplicationCondition" where
  "comparisonError err now =
     \<lparr>Type = ApplicationConditionComparisonError, Message = err, LastTransitionTime = Some now\<rparr>"

text \<open>
  Lines 246 to 261: the target objects, the manifest response, the conditions and the
  flag \<^verbatim>\<open>failedToLoadObjs\<close> after it.
\<close>

definition loadTargetObjs ::
  "appStateManager \<Rightarrow> Application \<Rightarrow> ApplicationSource \<Rightarrow> string \<Rightarrow> string \<Rightarrow> bool \<Rightarrow> string list
    \<Rightarrow> Time \<Rightarrow> Unstructured list \<times> ManifestResponse option \<times> ApplicationCondition list \<times> bool"
where
  "loadTargetObjs m app source appLabelKey revision noCache localManifests now =
     (if length localManifests = 0 then
        (case getRepoObjs m app source appLabelKey revision noCache of
           Inl err \<Rightarrow> ([], None, [comparisonError err now], True)
         | Inr (targetObjs, manifestInfo) \<Rightarrow> (targetObjs, Some manifestInfo, [], False))
      else
        (case unmarshalManifests m localManifests of
           Inl err \<Rightarrow> ([], None, [comparisonError err now], True)
         | Inr targetObjs \<Rightarrow> (targetObjs, None, [], False)))"

text \<open>Lines 263 to 267.\<close>

definition clusterInfoProvider :: "appStateManager \<Rightarrow> Application \<Rightarrow> ResourceInfoProvider" where
  "clusterInfoProvider m app =
     (case GetClusterCache m (Server (appDestination app)) of
        Inl err \<Rightarrow> resourceInfoProviderStub
      | Inr infoProvider \<Rightarrow> infoProvider)"

text \<open>Lines 268 to 272: the deduplicated targets and the conditions after them.\<close>

definition deduplicate ::
  "appStateManager \<Rightarrow> Application \<Rightarrow> ResourceInfoProvider \<Rightarrow> Time \<Rightarrow> Unstructured list
    \<Rightarrow> ApplicationCondition list \<Rightarrow> Unstructured list \<times> ApplicationCondition list"
where
  "deduplicate m app infoProvider now targetObjs conditions =
     (case DeduplicateTargetObjects (rangeTargetByKey m) (dedupNow m)
             (destNamespace (appDestination app)) targetObjs infoProvider of
        (targetObjs', dedupConditions, err) \<Rightarrow>
          (let conditions' =
                 (case err of
                    Some e \<Rightarrow> conditions @ [comparisonError e now]
                  | None \<Rightarrow> conditions)
           in (targetObjs', conditions' @ dedupConditions)))"

text \<open>
  Lines 278 to 289, the loop \<^verbatim>\<open>for i := len(targetObjs) - 1; i >= 0; i--\<close>; the third
  argument is \<open>i + 1\<close>.
\<close>

definition excludedResourceWarning :: "Unstructured \<Rightarrow> Time \<Rightarrow> ApplicationCondition" where
  "excludedResourceWarning targetObj now =
     \<lparr>Type = ApplicationConditionExcludedResourceWarning,
      Message = ''Resource '' @ objGroup targetObj @ ''/'' @ objKind targetObj @ '' ''
                  @ objName targetObj @ '' is excluded in the settings'',
      LastTransitionTime = Some now\<rparr>"

fun excludeResources ::
  "(string \<Rightarrow> string \<Rightarrow> string \<Rightarrow> bool) \<Rightarrow> string \<Rightarrow> Time \<Rightarrow> nat \<Rightarrow> Unstructured list
    \<Rightarrow> ApplicationCondition list \<Rightarrow> Unstructured list \<times> ApplicationCondition list"
where
  "excludeResources IsExcludedResource server now 0 targetObjs conditions = (targetObjs, conditions)"
| "excludeResources IsExcludedResource server now (Suc i) targetObjs conditions =
     (let targetObj = targetObjs ! i
      in if IsExcludedResource (objGroup targetObj) (objKind targetObj) server
         then excludeResources IsExcludedResource server now i
                (take i targetObjs @ drop (Suc i) targetObjs)
                (conditions @ [excludedResourceWarning targetObj now])
         else excludeResources IsExcludedResource server now i targetObjs conditions)"

text \<open>Lines 274 to 290.\<close>

definition filterTargetObjs ::
  "appStateManager \<Rightarrow> Application \<Rightarrow> Time \<Rightarrow> Unstructured list \<Rightarrow> ApplicationCondition list
    \<Rightarrow> Unstructured list \<times> ApplicationCondition list"
where
  "filterTargetObjs m app now targetObjs conditions =
     (case GetResourcesFilter m of
        Inl err \<Rightarrow> (targetObjs, conditions @ [comparisonError err now])
      | Inr IsExcludedResource \<Rightarrow>
          excludeResources IsExcludedResource (Server (appDestination app)) now
            (length targetObjs) targetObjs conditions)"

text \<open>
  Lines 293 to 306: the live objects by key, without those the project does not permit,
  the conditions and the flag after it.
\<close>

definition loadLiveObjs ::
  "appStateManager \<Rightarrow> Application \<Rightarrow> AppProject \<Rightarrow> Time \<Rightarrow> Unstructured list
    \<Rightarrow> ApplicationCondition list \<Rightarrow> bool
    \<Rightarrow> Unstructured option keyed \<times> ApplicationCondition list \<times> bool"
where
  "loadLiveObjs m app project now targetObjs conditions failedToLoadObjs =
     (case (case GetManagedLiveObjs m app targetObjs of
              Inl err \<Rightarrow> ([], conditions @ [comparisonError err now], True)
            | Inr liveObjByKey \<Rightarrow> (liveObjByKey, conditions, failedToLoadObjs)) of
        (liveObjByKey, conditions', failedToLoadObjs') \<Rightarrow>
          (filter (\<lambda>(k, v). IsLiveResourcePermitted project v (Server (appDestination app)))
             liveObjByKey,
           conditions', failedToLoadObjs'))"

text \<open>Lines 308 to 319.\<close>

definition sharedResourceWarning :: "Unstructured \<Rightarrow> string \<Rightarrow> Time \<Rightarrow> ApplicationCondition" where
  "sharedResourceWarning liveObj appInstanceName now =
     \<lparr>Type = ApplicationConditionSharedResourceWarning,
      Message = objKind liveObj @ ''/'' @ objName liveObj @ '' is part of a different application: ''
                  @ appInstanceName,
      LastTransitionTime = Some now\<rparr>"

fun sharedResourceWarnings ::
  "Application \<Rightarrow> string \<Rightarrow> Time \<Rightarrow> Unstructured option keyed \<Rightarrow> ApplicationCondition list
    \<Rightarrow> ApplicationCondition list"
where
  "sharedResourceWarnings app appLabelKey now [] conditions = conditions"
| "sharedResourceWarnings app appLabelKey now ((k, liveObj) # liveObjByKey) conditions =
     sharedResourceWarnings app appLabelKey now liveObjByKey
       (case liveObj of
          None \<Rightarrow> conditions
        | Some obj \<Rightarrow>
            (let appInstanceName = GetAppInstanceLabel obj appLabelKey
             in if appInstanceName \<noteq> [] \<and> appInstanceName \<noteq> appName app
                then conditions @ [sharedResourceWarning obj appInstanceName now]
                else conditions))"

text \<open>Lines 325 to 330: the diffs, the flag and the conditions after \<^verbatim>\<open>diff.DiffArray\<close>.\<close>

definition diffSlots ::
  "appStateManager \<Rightarrow> ReconciliationResult \<Rightarrow> Normalizer \<Rightarrow> Time \<Rightarrow> ApplicationCondition list \<Rightarrow> bool
    \<Rightarrow> DiffResultList \<times> ApplicationCondition list \<times> bool"
where
  "diffSlots m reconciliation normalizer now conditions failedToLoadObjs =
     (case DiffArray m (Target reconciliation) (Live reconciliation) normalizer of
        Inl err \<Rightarrow>
          (\<lparr>Diffs = [], dl_Modified = False\<rparr>, conditions @ [comparisonError err now], True)
      | Inr diffResults \<Rightarrow> (diffResults, conditions, failedToLoadObjs))"

subsection \<open>state.go: the loop over the slots\<close>

text \<open>
  Lines 344 to 394, the body of the loop for a slot whose object \<^verbatim>\<open>obj\<close> (the live object,
  or the target when there is no live object) is not \<^verbatim>\<open>nil\<close>: the aggregate code after
  the slot, its \<^verbatim>\<open>ResourceStatus\<close> and its \<^verbatim>\<open>managedResource\<close>.
\<close>

definition slotStatus ::
  "appStateManager \<Rightarrow> Application \<Rightarrow> AppProject \<Rightarrow> bool \<Rightarrow> SyncStatusCode
    \<Rightarrow> Unstructured option \<Rightarrow> Unstructured option \<Rightarrow> Unstructured \<Rightarrow> DiffResult
    \<Rightarrow> SyncStatusCode \<times> ResourceStatus \<times> managedResource"
where
  "slotStatus m app project failedToLoadObjs syncCode targetObj liveObj obj diffResult =
     (let resState =
            \<lparr>rs_Group = objGroup obj, rs_Version = objVersion obj, rs_Kind = objKind obj,
             rs_Namespace = objNamespace obj, rs_Name = objName obj,
             rs_Status = SyncStatusCodeNone,
             rs_Hook = IsHook m obj,
             rs_RequiresPruning = (targetObj = None \<and> liveObj \<noteq> None)\<rparr>;
          (resState1, syncCode') =
            (if rs_Hook resState \<or> Ignore m obj then (resState, syncCode)
             else if Modified diffResult \<or> targetObj = None \<or> liveObj = None then
               (resState\<lparr>rs_Status := SyncStatusCodeOutOfSync\<rparr>,
                (let needsPruning = (targetObj = None \<and> liveObj \<noteq> None)
                 in if \<not> (needsPruning \<and>
                           HasAnnotationOption m obj (AnnotationCompareOptions m) ''IgnoreExtraneous'')
                    then SyncStatusCodeOutOfSync else syncCode))
             else (resState\<lparr>rs_Status := SyncStatusCodeSynced\<rparr>, syncCode));
          (isNamespaced, err) = IsNamespaced m (Server (appDestination app)) (GroupKind obj);
          resState2 =
            (if \<not> IsGroupKindPermitted project (GroupKind obj) (isNamespaced \<and> err = None)
             then resState1\<lparr>rs_Status := SyncStatusCodeUnknown\<rparr> else resState1);
          resState3 =
            (if failedToLoadObjs then resState2\<lparr>rs_Status := SyncStatusCodeUnknown\<rparr>
             else resState2)
      in (syncCode', resState3,
          \<lparr>mr_Target = targetObj, mr_Live = liveObj, mr_Diff = diffResult,
           mr_Group = rs_Group resState3, mr_Version = rs_Version resState3,
           mr_Kind = rs_Kind resState3, mr_Namespace = rs_Namespace resState3,
           mr_Name = rs_Name resState3, mr_Hook = rs_Hook resState3\<rparr>))"

text \<open>Lines 337 to 340: the object of a slot is the live object, or the target when
  there is no live object.\<close>

definition slotObject :: "Unstructured option \<Rightarrow> Unstructured option \<Rightarrow> Unstructured option" where
  "slotObject targetObj liveObj = (case liveObj of None \<Rightarrow> targetObj | Some l \<Rightarrow> Some l)"

text \<open>
  Lines 335 to 395. The three lists are \<^verbatim>\<open>reconciliation.Target\<close>, \<^verbatim>\<open>reconciliation.Live\<close>
  and \<^verbatim>\<open>diffResults.Diffs\<close> from the current index on. \<^verbatim>\<open>reconciliation.Live[i]\<close> is read
  for every index of the targets, \<^verbatim>\<open>diffResults.Diffs[i]\<close> for every slot that has an
  object; an index beyond the end of a slice is a panic. A slot with neither object is
  skipped (\<^verbatim>\<open>continue\<close>) and leaves the zero values in the two result slices.
\<close>

fun statusLoop ::
  "appStateManager \<Rightarrow> Application \<Rightarrow> AppProject \<Rightarrow> bool
    \<Rightarrow> Unstructured option list \<Rightarrow> Unstructured option list \<Rightarrow> DiffResult list \<Rightarrow> SyncStatusCode
    \<Rightarrow> panic + (SyncStatusCode \<times> (ResourceStatus \<times> managedResource) list)"
where
  "statusLoop m app project failedToLoadObjs [] lives diffs syncCode = Inr (syncCode, [])"
| "statusLoop m app project failedToLoadObjs (targetObj # targets) [] diffs syncCode =
     Inl IndexOutOfRange"
| "statusLoop m app project failedToLoadObjs (targetObj # targets) (liveObj # lives) diffs syncCode =
     (case slotObject targetObj liveObj of
        None \<Rightarrow>
          (case statusLoop m app project failedToLoadObjs targets lives (drop 1 diffs) syncCode of
             Inl p \<Rightarrow> Inl p
           | Inr (code, slots) \<Rightarrow> Inr (code, (zeroResourceStatus, zeroManagedResource) # slots))
      | Some obj \<Rightarrow>
          (case diffs of
             [] \<Rightarrow> Inl IndexOutOfRange
           | diffResult # diffs' \<Rightarrow>
               (case slotStatus m app project failedToLoadObjs syncCode targetObj liveObj obj
                       diffResult of
                  (syncCode', resState, managed) \<Rightarrow>
                    (case statusLoop m app project failedToLoadObjs targets lives diffs' syncCode' of
                       Inl p \<Rightarrow> Inl p
                     | Inr (code, slots) \<Rightarrow> Inr (code, (resState, managed) # slots)))))"

definition GetLiveObjs :: "managedResource list \<Rightarrow> Unstructured option list" where
  "GetLiveObjs res = map mr_Live res"

subsection \<open>state.go: \<^verbatim>\<open>CompareAppState\<close>\<close>

text \<open>
  The result is the \<^verbatim>\<open>comparisonResult\<close> returned and the conditions given to
  \<^verbatim>\<open>app.Status.SetConditions\<close> (\<open>None\<close> on the early return, which does not call it), or
  a panic.
\<close>

definition CompareAppState ::
  "appStateManager \<Rightarrow> Application \<Rightarrow> AppProject \<Rightarrow> string \<Rightarrow> ApplicationSource \<Rightarrow> bool
    \<Rightarrow> string list \<Rightarrow> panic + (comparisonResult \<times> ApplicationCondition list option)"
where
  "CompareAppState m app project revision source noCache localManifests =
     (case getComparisonSettings m app of
        Inl err \<Rightarrow>
          Inr (\<lparr>syncStatus = Some \<lparr>ss_ComparedTo = \<lparr>Source = source, Destination = appDestination app\<rparr>,
                                   ss_Status = SyncStatusCodeUnknown, ss_Revision = []\<rparr>,
                healthStatus = Some \<lparr>hs_Status = HealthStatusUnknown, hs_Message = []\<rparr>,
                resources = [], managedResources = [],
                reconciliationResult = \<lparr>Target = [], Live = []\<rparr>,
                diffNormalizer = None, appSourceType = []\<rparr>,
               None)
      | Inr (appLabelKey, resourceOverrides, normalizer) \<Rightarrow>
          (let now = Now m;
               (targetObjs0, manifestInfo, conditions0, failed0) =
                 loadTargetObjs m app source appLabelKey revision noCache localManifests now;
               infoProvider = clusterInfoProvider m app;
               (targetObjs1, conditions1) =
                 deduplicate m app infoProvider now targetObjs0 conditions0;
               (targetObjs, conditions2) = filterTargetObjs m app now targetObjs1 conditions1;
               (liveObjByKey, conditions3, failed1) =
                 loadLiveObjs m app project now targetObjs conditions2 failed0;
               conditions4 = sharedResourceWarnings app appLabelKey now liveObjByKey conditions3;
               reconciliation =
                 Reconcile m targetObjs liveObjByKey (destNamespace (appDestination app)) infoProvider;
               (diffResults, conditions5, failedToLoadObjs) =
                 diffSlots m reconciliation normalizer now conditions4 failed1
           in case statusLoop m app project failedToLoadObjs (Target reconciliation)
                     (Live reconciliation) (Diffs diffResults) SyncStatusCodeSynced of
                Inl p \<Rightarrow> Inl p
              | Inr (syncCode0, slots) \<Rightarrow>
                  (let resourceSummaries = map fst slots;
                       managed = map snd slots;
                       syncCode = (if failedToLoadObjs then SyncStatusCodeUnknown else syncCode0);
                       status =
                         \<lparr>ss_ComparedTo = \<lparr>Source = source, Destination = appDestination app\<rparr>,
                          ss_Status = syncCode,
                          ss_Revision = (case manifestInfo of Some info \<Rightarrow> Revision info | None \<Rightarrow> [])\<rparr>;
                       (health, err) =
                         SetApplicationHealth m app resourceSummaries (GetLiveObjs managed)
                           resourceOverrides;
                       conditions =
                         (case err of
                            Some e \<Rightarrow> conditions5 @ [comparisonError e now]
                          | None \<Rightarrow> conditions5)
                   in Inr (\<lparr>syncStatus = Some status, healthStatus = health,
                             resources = resourceSummaries, managedResources = managed,
                             reconciliationResult = reconciliation,
                             diffNormalizer = Some normalizer,
                             appSourceType =
                               (case manifestInfo of Some info \<Rightarrow> SourceType info | None \<Rightarrow> [])\<rparr>,
                            Some conditions))))"

subsection \<open>The reconciler and an environment for the examples\<close>

text \<open>
  Modelled from the spec: \<^verbatim>\<open>sync.Reconcile\<close> (package \<^verbatim>\<open>engine/pkg/utils/kube/sync\<close>, which
  is not among the sources). "For every target object, compute its key (with namespace
  imputation) and place \<^verbatim>\<open>(target_i, liveByKey[key])\<close> into a slot; remove that key from
  \<^verbatim>\<open>liveByKey\<close>. For every remaining live object, emit a slot \<^verbatim>\<open>(nil, live_j)\<close>. Slot
  ordering: all target-bearing slots first in input order, then prune slots in live
  iteration order." \<^verbatim>\<open>CompareAppState\<close> takes the reconciler as a parameter; this one is
  used in the examples only.
\<close>

fun Reconcile_targets ::
  "string \<Rightarrow> ResourceInfoProvider \<Rightarrow> Unstructured list \<Rightarrow> Unstructured option keyed
    \<Rightarrow> Unstructured option list \<times> Unstructured option keyed"
where
  "Reconcile_targets namespace infoProvider [] liveByKey = ([], liveByKey)"
| "Reconcile_targets namespace infoProvider (target # targets) liveByKey =
     (let key = GetResourceKey (imputeNamespace namespace infoProvider target);
          live = (case map_of liveByKey key of Some l \<Rightarrow> l | None \<Rightarrow> None)
      in case Reconcile_targets namespace infoProvider targets
                (filter (\<lambda>(k, v). k \<noteq> key) liveByKey) of
           (lives, remaining) \<Rightarrow> (live # lives, remaining))"

definition Reconcile_spec ::
  "Unstructured list \<Rightarrow> Unstructured option keyed \<Rightarrow> string \<Rightarrow> ResourceInfoProvider
    \<Rightarrow> ReconciliationResult"
where
  "Reconcile_spec targets liveByKey namespace infoProvider =
     (case Reconcile_targets namespace infoProvider targets liveByKey of
        (lives, remaining) \<Rightarrow>
          \<lparr>Target = map Some targets @ map (\<lambda>(k, v). None) remaining,
           Live = lives @ map snd remaining\<rparr>)"

text \<open>The objects of the examples: a Deployment \<^verbatim>\<open>web\<close> and a ConfigMap \<^verbatim>\<open>m\<close> in the
  namespace \<^verbatim>\<open>n\<close>, the same ConfigMap with the compare option \<^verbatim>\<open>IgnoreExtraneous\<close>, and a
  Job \<^verbatim>\<open>migrate\<close> that is a hook.\<close>

definition deployment_web :: Unstructured where
  "deployment_web =
     \<lparr>objGroup = ''apps'', objVersion = ''v1'', objKind = ''Deployment'', objNamespace = ''n'',
      objName = ''web'', objLabels = None, objAnnotations = [], objRest = ''replicas: 3''\<rparr>"

definition configMap_m :: Unstructured where
  "configMap_m =
     \<lparr>objGroup = [], objVersion = ''v1'', objKind = ''ConfigMap'', objNamespace = ''n'',
      objName = ''m'', objLabels = None, objAnnotations = [], objRest = []\<rparr>"

definition configMap_extraneous :: Unstructured where
  "configMap_extraneous =
     configMap_m\<lparr>objAnnotations := [(''argocd.argoproj.io/compare-options'', ''IgnoreExtraneous'')]\<rparr>"

definition job_hook :: Unstructured where
  "job_hook =
     \<lparr>objGroup = ''batch'', objVersion = ''v1'', objKind = ''Job'', objNamespace = ''n'',
      objName = ''migrate'', objLabels = None,
      objAnnotations = [(''argocd.argoproj.io/hook'', ''PreSync'')], objRest = []\<rparr>"

definition app_example :: Application where
  "app_example =
     \<lparr>appName = ''guestbook'',
      appDestination = \<lparr>Server = ''https://kubernetes.default.svc'', destNamespace = ''n''\<rparr>,
      appIgnoreDifferences = []\<rparr>"

definition source_example :: ApplicationSource where
  "source_example =
     \<lparr>RepoURL = ''https://example.com/repo.git'', Path = ''guestbook'', TargetRevision = ''HEAD''\<rparr>"

definition project_permissive :: AppProject where
  "project_permissive =
     \<lparr>IsLiveResourcePermitted = (\<lambda>un server. True),
      IsGroupKindPermitted = (\<lambda>gk namespaced. True)\<rparr>"

text \<open>
  A manager whose collaborators all succeed: the repository holds the one manifest of the
  Deployment, there are no live objects, every kind is namespaced, the diff of a slot says
  "modified" when both objects are present and differ, the hook, ignore and compare-option
  helpers read the annotations, and the health is Healthy.
\<close>

definition manager_example :: appStateManager where
  "manager_example =
     \<lparr>GetResourceOverrides = Inr [],
      GetAppInstanceLabelKey = Inr ''app.kubernetes.io/instance'',
      GetConfigManagementPlugins = Inr [],
      GetKustomizeBuildOptions = Inr [],
      GetResourcesFilter = Inr (\<lambda>g k server. False),
      ListHelmRepositories = Inr [],
      GetRepository = (\<lambda>url. Inr url),
      NewRepoServerClient = Inr (),
      GenerateManifest = (\<lambda>req.
        Inr \<lparr>Manifests = [''deployment web''], Revision = ''abc123'', SourceType = ''Directory''\<rparr>),
      GetServerVersion = (\<lambda>server. Inr ''1.16''),
      GetClusterCache = (\<lambda>server. Inr (\<lambda>gk. (True, None))),
      GetManagedLiveObjs = (\<lambda>app targetObjs. Inr []),
      IsNamespaced = (\<lambda>server gk. (True, None)),
      UnmarshalToUnstructured = (\<lambda>manifest.
        if manifest = ''deployment web'' then Inr deployment_web
        else Inl ''invalid character''),
      NewDiffNormalizer = (\<lambda>ignore overrides. Inr (Normalizer 0)),
      Reconcile = Reconcile_spec,
      DiffArray = (\<lambda>targets lives normalizer.
        Inr \<lparr>Diffs = map (\<lambda>(t, l). \<lparr>Modified = (t \<noteq> None \<and> l \<noteq> None \<and> t \<noteq> l),
                                        NormalizedLive = [], PredictedLive = []\<rparr>) (zip targets lives),
             dl_Modified = False\<rparr>),
      IsHook = (\<lambda>obj. map_of (objAnnotations obj) ''argocd.argoproj.io/hook'' \<noteq> None),
      Ignore = (\<lambda>obj. map_of (objAnnotations obj) ''argocd.argoproj.io/sync-options'' = Some ''Ignore''),
      HasAnnotationOption = (\<lambda>obj key val. map_of (objAnnotations obj) key = Some val),
      AnnotationCompareOptions = ''argocd.argoproj.io/compare-options'',
      SetApplicationHealth = (\<lambda>app resStatuses liveObjs overrides.
        (Some \<lparr>hs_Status = HealthStatusHealthy, hs_Message = []\<rparr>, None)),
      Now = 1000,
      dedupNow = (\<lambda>i. 1000 + i),
      rangeTargetByKey = (\<lambda>entries. entries)\<rparr>"

text \<open>The same manager when the settings cannot be read, when the diff of the slots
  fails, when the ConfigMap is live, and when the manifests cannot be generated while the
  ConfigMap is live.\<close>

definition manager_no_settings :: appStateManager where
  "manager_no_settings =
     manager_example\<lparr>GetResourceOverrides := Inl ''configmap argocd-cm not found''\<rparr>"

definition manager_diff_fails :: appStateManager where
  "manager_diff_fails =
     manager_example\<lparr>DiffArray := (\<lambda>targets lives normalizer. Inl ''failed to normalize'')\<rparr>"

definition manager_live_configmap :: appStateManager where
  "manager_live_configmap =
     manager_example
       \<lparr>GetManagedLiveObjs := (\<lambda>app targetObjs. Inr [(GetResourceKey configMap_m, Some configMap_m)])\<rparr>"

definition manager_no_manifests :: appStateManager where
  "manager_no_manifests =
     manager_example
       \<lparr>GenerateManifest := (\<lambda>req. Inl ''rpc error: repository not found''),
        GetManagedLiveObjs := (\<lambda>app targetObjs. Inr [(GetResourceKey configMap_m, Some configMap_m)])\<rparr>"

subsection \<open>Vocabulary of the statements about \<^verbatim>\<open>DeduplicateTargetObjects\<close>\<close>

text \<open>The targets as the first loop leaves them, the keys under which it files them, a
  condition without its timestamp, and the warning for a key that occurs \<open>n\<close> times.\<close>

definition imputed :: "string \<Rightarrow> ResourceInfoProvider \<Rightarrow> Unstructured list \<Rightarrow> Unstructured list" where
  "imputed namespace infoProvider objs = map (imputeNamespace namespace infoProvider) objs"

definition targetKeys :: "string \<Rightarrow> ResourceInfoProvider \<Rightarrow> Unstructured list \<Rightarrow> ResourceKey list" where
  "targetKeys namespace infoProvider objs = map GetResourceKey (imputed namespace infoProvider objs)"

definition untimed :: "ApplicationCondition \<Rightarrow> ApplicationCondition" where
  "untimed c = c\<lparr>LastTransitionTime := None\<rparr>"

definition repeatedResourceWarning :: "ResourceKey \<Rightarrow> nat \<Rightarrow> ApplicationCondition" where
  "repeatedResourceWarning key n =
     \<lparr>Type = ApplicationConditionRepeatedResourceWarning,
      Message = repeatedResourceMessage key n,
      LastTransitionTime = None\<rparr>"

definition targetsAt :: "Unstructured list keyed \<Rightarrow> ResourceKey \<Rightarrow> Unstructured list" where
  "targetsAt targetByKey key = (case map_of targetByKey key of Some targets \<Rightarrow> targets | None \<Rightarrow> [])"

text \<open>For the examples: a provider for which every kind is namespaced, a clock, the
  ConfigMap \<^verbatim>\<open>m\<close> as a manifest that names no namespace, and a list of targets in which
  the ConfigMap occurs twice (first without its namespace) and the Deployment \<^verbatim>\<open>web\<close>
  occurs twice (the second time with two replicas).\<close>

definition infoProvider_namespaced :: ResourceInfoProvider where
  "infoProvider_namespaced gk = (True, None)"

definition clock_example :: "nat \<Rightarrow> Time" where
  "clock_example i = 1000 + i"

definition deployment_web_2 :: Unstructured where
  "deployment_web_2 = deployment_web\<lparr>objRest := ''replicas: 2''\<rparr>"

definition configMap_bare :: Unstructured where
  "configMap_bare = configMap_m\<lparr>objNamespace := []\<rparr>"

definition targets_repeated :: "Unstructured list" where
  "targets_repeated = [configMap_bare, deployment_web, configMap_m, deployment_web_2]"

text \<open>
  A manager that reads local manifests: the Job \<^verbatim>\<open>migrate\<close>, plain and as a hook, the
  Deployment and the ConfigMap.
\<close>

definition job_plain :: Unstructured where
  "job_plain = job_hook\<lparr>objAnnotations := []\<rparr>"

definition manager_local :: appStateManager where
  "manager_local =
     manager_example
       \<lparr>UnmarshalToUnstructured := (\<lambda>manifest.
          if manifest = ''job migrate'' then Inr job_plain
          else if manifest = ''job migrate, hook'' then Inr job_hook
          else if manifest = ''deployment web'' then Inr deployment_web
          else if manifest = ''configmap m'' then Inr configMap_m
          else Inl ''invalid character'')\<rparr>"


text \<open>A project that permits the kinds that are namespaced and no cluster-scoped kind,
  a manager whose live state cache cannot tell whether a kind is namespaced, and a diff
  that finds nothing modified.\<close>

definition project_namespaced_only :: AppProject where
  "project_namespaced_only =
     \<lparr>IsLiveResourcePermitted = (\<lambda>un server. True),
      IsGroupKindPermitted = (\<lambda>gk namespaced. namespaced)\<rparr>"

definition manager_cache_error :: appStateManager where
  "manager_cache_error =
     manager_live_configmap
       \<lparr>IsNamespaced := (\<lambda>server gk. (False, Some ''cluster cache is not synced''))\<rparr>"

definition diff_unmodified :: DiffResult where
  "diff_unmodified = \<lparr>Modified = False, NormalizedLive = ''{}'', PredictedLive = ''{}''\<rparr>"

text \<open>What the examples read off the outcome of a pass: the slots, the status of every
  entry of \<^verbatim>\<open>resources\<close> and the aggregate status.\<close>

definition outcome ::
  "panic + (comparisonResult \<times> ApplicationCondition list option)
    \<Rightarrow> panic + (Unstructured option list \<times> Unstructured option list \<times> SyncStatusCode list
                 \<times> SyncStatusCode option)"
where
  "outcome r =
     map_sum id
       (\<lambda>(res, conditions).
          (Target (reconciliationResult res), Live (reconciliationResult res),
           map rs_Status (resources res), map_option ss_Status (syncStatus res)))
       r"

subsection \<open>Vocabulary of the statements about keys, counts and slots\<close>

text \<open>
  The resource key under which a target is filed, written out from the target itself:
  its group, kind and name, and as namespace the empty string when the kind is not
  namespaced, the destination namespace when the kind is namespaced and the target has
  none, and the target's own namespace otherwise.
\<close>

definition imputedNamespace :: "string \<Rightarrow> ResourceInfoProvider \<Rightarrow> Unstructured \<Rightarrow> string" where
  "imputedNamespace namespace infoProvider obj =
     (if fst (infoProvider (objGroup obj, objKind obj))
      then (if objNamespace obj = [] then namespace else objNamespace obj)
      else [])"

definition imputedKey :: "string \<Rightarrow> ResourceInfoProvider \<Rightarrow> Unstructured \<Rightarrow> ResourceKey" where
  "imputedKey namespace infoProvider obj =
     \<lparr>Group = objGroup obj, Kind = objKind obj,
      Namespace = imputedNamespace namespace infoProvider obj, Name = objName obj\<rparr>"

text \<open>
  Reading a count off a message: the value of a digit (its place among the ten digits),
  the value of a string of decimal digits, and what it is
  for a condition to say that the key \<open>key\<close> appeared \<open>n\<close> times. The digits are what
  stands in the message between the two fixed parts of the text.
\<close>

definition is_digit :: "char \<Rightarrow> bool" where
  "is_digit c = (c \<in> set ''0123456789'')"

definition digit_value :: "char \<Rightarrow> nat" where
  "digit_value c = length (takeWhile (\<lambda>d. d \<noteq> c) ''0123456789'')"

definition decimal_value :: "string \<Rightarrow> nat" where
  "decimal_value digits = foldl (\<lambda>value c. 10 * value + digit_value c) 0 digits"

definition says_count :: "ApplicationCondition \<Rightarrow> ResourceKey \<Rightarrow> nat \<Rightarrow> bool" where
  "says_count c key n =
     (let before = ''Resource '' @ Group key @ ''/'' @ Kind key @ ''/'' @ Namespace key @ ''/''
                     @ Name key @ '' appeared '';
          after = '' times among application resources.'';
          digits = take (length (Message c) - length before - length after)
                     (drop (length before) (Message c))
      in Type c = ApplicationConditionRepeatedResourceWarning
         \<and> Message c = before @ digits @ after
         \<and> digits \<noteq> [] \<and> list_all is_digit digits \<and> decimal_value digits = n)"

text \<open>
  A slot is a target, a live object and a diff. Whether a slot sets the aggregate code to
  OutOfSync, and the entry it leaves in the result slices.
\<close>

definition slotDowngrades ::
  "appStateManager \<Rightarrow> Unstructured option \<times> Unstructured option \<times> DiffResult \<Rightarrow> bool"
where
  "slotDowngrades m slot =
     (case slot of
        (t, l, d) \<Rightarrow>
          (case slotObject t l of
             None \<Rightarrow> False
           | Some obj \<Rightarrow>
               \<not> (IsHook m obj \<or> Ignore m obj)
               \<and> (Modified d \<or> t = None \<or> l = None)
               \<and> \<not> (t = None \<and> l \<noteq> None
                     \<and> HasAnnotationOption m obj (AnnotationCompareOptions m) ''IgnoreExtraneous'')))"

definition slotEntry ::
  "appStateManager \<Rightarrow> Application \<Rightarrow> AppProject \<Rightarrow> bool
    \<Rightarrow> Unstructured option \<times> Unstructured option \<times> DiffResult \<Rightarrow> ResourceStatus \<times> managedResource"
where
  "slotEntry m app project failed slot =
     (case slot of
        (t, l, d) \<Rightarrow>
          (case slotObject t l of
             None \<Rightarrow> (zeroResourceStatus, zeroManagedResource)
           | Some obj \<Rightarrow> snd (slotStatus m app project failed SyncStatusCodeSynced t l obj d)))"

section \<open>Theorems\<close>

subsection \<open>\<^verbatim>\<open>RetryUntilSucceed\<close>\<close>

lemma RetryUntilSucceed_from_rounds:
  assumes "\<forall>j<k. action (i + j) \<noteq> None \<and> \<not> ctxCompleted (i + j)"
    and "action (i + k) = None \<or> ctxCompleted (i + k)"
    and "k < fuel"
  shows "RetryUntilSucceed_from action ctxCompleted timeout i fuel = Some (retry_rounds timeout i k)"
  using assms
proof (induction k arbitrary: i fuel)
  case 0
  then obtain f where "fuel = Suc f" by (cases fuel) auto
  with 0 show ?case by (auto split: option.splits)
next
  case (Suc k)
  then obtain f where f: "fuel = Suc f" by (cases fuel) auto
  from Suc.prems(1) have here: "action i \<noteq> None" "\<not> ctxCompleted i"
    by (metis add.right_neutral zero_less_Suc)+
  have "\<forall>j<k. action (Suc i + j) \<noteq> None \<and> \<not> ctxCompleted (Suc i + j)"
    using Suc.prems(1) by (metis Suc_less_eq add_Suc_shift)
  moreover have "action (Suc i + k) = None \<or> ctxCompleted (Suc i + k)"
    using Suc.prems(2) by simp
  moreover have "k < f" using Suc.prems(3) f by simp
  ultimately have "RetryUntilSucceed_from action ctxCompleted timeout (Suc i) f
      = Some (retry_rounds timeout (Suc i) k)"
    by (rule Suc.IH)
  with here f show ?case by (auto split: option.splits)
qed

lemma retry_rounds_flat:
  "retry_rounds timeout i k = concat (map (\<lambda>j. [Attempt j, Sleep timeout]) [i..<i + k]) @ [Attempt (i + k)]"
proof (induction k arbitrary: i)
  case 0
  show ?case by simp
next
  case (Suc k)
  have "[i..<i + Suc k] = i # [Suc i..<Suc i + k]"
    by (simp add: upt_conv_Cons)
  with Suc show ?case by simp
qed

text \<open>
  C9. Let \<open>k\<close> be the first attempt that succeeds or after whose failure the loop reads
  \<^verbatim>\<open>ctxCompleted\<close> as true. Then \<^verbatim>\<open>RetryUntilSucceed\<close> returns (any fuel above \<open>k\<close> is
  enough), and what it has done is: attempt \<open>0\<close>, a sleep of \<open>timeout\<close>, attempt \<open>1\<close>, ...,
  a sleep of \<open>timeout\<close>, attempt \<open>k\<close>, and nothing more. So there is at least one attempt
  whatever the flag holds at the start (\<open>k = 0\<close> when the context is already cancelled
  and seen so), every two consecutive attempts are separated by exactly one sleep of the
  given timeout, no attempt follows the one after which the cancellation was observed, and
  the return carries no error: the result is the list of events alone, which does not
  depend on the error values the action returned.
\<close>

theorem RetryUntilSucceed_attempts:
  assumes "\<forall>j<k. action j \<noteq> None \<and> \<not> ctxCompleted j"
    and "action k = None \<or> ctxCompleted k"
    and "k < fuel"
  shows "RetryUntilSucceed action ctxCompleted timeout fuel =
           Some (concat (map (\<lambda>j. [Attempt j, Sleep timeout]) [0..<k]) @ [Attempt k])"
proof -
  have "RetryUntilSucceed_from action ctxCompleted timeout 0 fuel = Some (retry_rounds timeout 0 k)"
    by (rule RetryUntilSucceed_from_rounds) (use assms in simp_all)
  then show ?thesis
    by (simp add: RetryUntilSucceed_def retry_rounds_flat)
qed

theorem RetryUntilSucceed_attempts_witness:
  "RetryUntilSucceed (\<lambda>i. if i < 2 then Some ''connection refused'' else None)
       (\<lambda>i. False) (5 * Second) 3
     = Some [Attempt 0, Sleep (5 * Second), Attempt 1, Sleep (5 * Second), Attempt 2]
   \<and> RetryUntilSucceed (\<lambda>i. Some ''connection refused'') (\<lambda>i. True) (5 * Second) 1
     = Some [Attempt 0]"
proof -
  let ?a = "\<lambda>i::nat. if i < 2 then Some ''connection refused'' else None"
  have a1: "\<forall>j<2. ?a j \<noteq> None \<and> \<not> (\<lambda>i::nat. False) j" by simp
  have a2: "?a 2 = None \<or> (\<lambda>i::nat. False) 2" by simp
  have a3: "(2::nat) < 3" by simp
  have b1: "\<forall>j<0. (\<lambda>i::nat. Some ''connection refused'') j \<noteq> None \<and> \<not> (\<lambda>i::nat. True) j"
    by simp
  have b2: "(\<lambda>i::nat. Some ''connection refused'') 0 = None \<or> (\<lambda>i::nat. True) 0" by simp
  have b3: "(0::nat) < 1" by simp
  have two: "[0..<2] = [0, Suc 0]"
    by (simp add: upt_conv_Cons)
  show ?thesis
    using RetryUntilSucceed_attempts [of 2 ?a "\<lambda>i. False" 3 "5 * Second", OF a1 a2 a3]
      RetryUntilSucceed_attempts [of 0 "\<lambda>i. Some ''connection refused''" "\<lambda>i. True" 1 "5 * Second",
        OF b1 b2 b3]
    by (simp add: two)
qed

subsection \<open>\<^verbatim>\<open>WatchWithRetry\<close>\<close>

lemma WatchWithRetry_from_sessions:
  assumes "\<forall>j<n. getWatch (i + j) = Inr (events (i + j), ResultChanClosed)"
    and "getWatch (i + n) = Inl err"
    and "n < fuel"
  shows "WatchWithRetry_from getWatch i fuel =
           Some (concat (map (\<lambda>j. closed_session (events j)) [i..<i + n])
                 @ [GetWatch, Send (Error err), CloseCh])"
  using assms
proof (induction n arbitrary: i fuel)
  case 0
  then obtain f where "fuel = Suc f" by (cases fuel) auto
  with 0 show ?case by (simp add: execute_def)
next
  case (Suc n)
  then obtain f where f: "fuel = Suc f" by (cases fuel) auto
  from Suc.prems(1) have here: "getWatch i = Inr (events i, ResultChanClosed)"
    by (metis add.right_neutral zero_less_Suc)
  have "\<forall>j<n. getWatch (Suc i + j) = Inr (events (Suc i + j), ResultChanClosed)"
    using Suc.prems(1) by (metis Suc_less_eq add_Suc_shift)
  moreover have "getWatch (Suc i + n) = Inl err"
    using Suc.prems(2) by simp
  moreover have "n < f" using Suc.prems(3) f by simp
  ultimately have rest: "WatchWithRetry_from getWatch (Suc i) f =
      Some (concat (map (\<lambda>j. closed_session (events j)) [Suc i..<Suc i + n])
            @ [GetWatch, Send (Error err), CloseCh])"
    by (rule Suc.IH)
  have "[i..<i + Suc n] = i # [Suc i..<Suc i + n]"
    by (simp add: upt_conv_Cons)
  with here f rest show ?case
    by (simp add: execute_def closed_session_def)
qed

text \<open>
  C1, as the claim states it, fails. With a factory that returns an error, the goroutine
  calls \<^verbatim>\<open>getWatch\<close> once, sends the Error item and closes the channel: \<^verbatim>\<open>execute\<close>
  returns \<^verbatim>\<open>(false, err)\<close>, and the loop returns on \<^verbatim>\<open>!retry\<close> before it reaches
  \<^verbatim>\<open>time.Sleep\<close>. Five iterations are allowed here and one is used: there is no sleep and
  no second call.
\<close>

theorem WatchWithRetry_error_counterexample:
  "WatchWithRetry getWatch_failing 5 =
     Some [GetWatch, Send (Error ''the server could not find the requested resource''), CloseCh]
   \<and> SleepFor Second \<notin> set (the (WatchWithRetry getWatch_failing 5))
   \<and> count_list (the (WatchWithRetry getWatch_failing 5)) GetWatch = 1"
  by (simp add: WatchWithRetry_def getWatch_failing_def execute_def eval_nat_numeral)

text \<open>
  C1, amended. The loop goes on after a watch whose result channel was closed, and only
  then: each such watch is stopped, the goroutine sleeps one second and calls \<^verbatim>\<open>getWatch\<close>
  again. The first call of \<^verbatim>\<open>getWatch\<close> that returns an error ends the goroutine: it
  sends one Error item with that error and closes the output channel, with no sleep and
  no further call of \<^verbatim>\<open>getWatch\<close>. (It returns: any fuel above the number of closed watches
  is enough.)
\<close>

theorem WatchWithRetry_error_ends_loop:
  assumes "\<forall>j<n. getWatch j = Inr (events j, ResultChanClosed)"
    and "getWatch n = Inl err"
    and "n < fuel"
  shows "WatchWithRetry getWatch fuel =
           Some (concat (map (\<lambda>j. closed_session (events j)) [0..<n])
                 @ [GetWatch, Send (Error err), CloseCh])"
  unfolding WatchWithRetry_def
  by (rule WatchWithRetry_from_sessions [where i = 0, simplified]) (use assms in simp_all)

theorem WatchWithRetry_error_ends_loop_witness:
  "WatchWithRetry getWatch_closed_then_failing 4 =
     Some [GetWatch, Send (Event 10), Send (Event 11), StopWatch, SleepFor Second,
           GetWatch, Send (Error ''connection refused''), CloseCh]"
proof -
  have a1: "\<forall>j<1. getWatch_closed_then_failing j = Inr ((\<lambda>j. [10, 11]) j, ResultChanClosed)"
    by (simp add: getWatch_closed_then_failing_def)
  have a2: "getWatch_closed_then_failing 1 = Inl ''connection refused''"
    by (simp add: getWatch_closed_then_failing_def)
  have a3: "(1::nat) < 4" by simp
  show ?thesis
    using WatchWithRetry_error_ends_loop [OF a1 a2 a3]
    by (simp add: closed_session_def)
qed

subsection \<open>\<^verbatim>\<open>SplitYAML\<close>\<close>

lemma SplitYAML_parts_result:
  "SplitYAML_parts y parts objs firstErr =
     (objs @ concat (map (part_objs y) parts),
      (case firstErr of
         Some e \<Rightarrow> Some e
       | None \<Rightarrow> (case filter (part_fails y) parts of
                    [] \<Rightarrow> None
                  | part # _ \<Rightarrow> Some (part_error y part))))"
proof (induction parts arbitrary: objs firstErr)
  case Nil
  show ?case by (simp split: option.splits)
next
  case (Cons part parts)
  show ?case
  proof (cases "Unmarshal_map y part")
    case (Inl err)
    then show ?thesis
      by (simp add: Cons.IH part_objs_def part_fails_def part_error_def split: option.splits)
  next
    case (Inr objMap)
    show ?thesis
    proof (cases "Unmarshal_obj y part")
      case (Inl err)
      with Inr show ?thesis
        by (simp add: Cons.IH part_objs_def part_fails_def part_error_def split: option.splits)
    next
      case obj: (Inr obj)
      with Inr show ?thesis
        by (simp add: Cons.IH part_objs_def part_fails_def part_error_def split: option.splits)
    qed
  qed
qed

text \<open>
  C2, as the claim states it, fails. The input has two documents; the first parses and
  its object is returned, the second does not parse, and the error returned is not
  \<^verbatim>\<open>nil\<close>: \<^verbatim>\<open>firstErr\<close> is set by the first part that fails and is returned whatever the
  other parts did ("If any errors occurred, returns the first one", says the function's
  comment).
\<close>

theorem SplitYAML_partial_counterexample:
  "Split manifest_good_then_bad = [''kind: ConfigMap'', [CHR 0x0A, CHR ''{'']]
   \<and> \<not> part_fails yaml_example ''kind: ConfigMap''
   \<and> SplitYAML yaml_example manifest_good_then_bad =
       ([configMap],
        Some ''Failed to unmarshal manifest: error converting YAML to JSON: yaml: did not find expected node content'')"
  by (simp add: SplitYAML_def Split_def manifest_good_then_bad_def diffSeparator_def
      yaml_example_def part_fails_def unmarshal_failure_def)

text \<open>
  C2, amended. \<^verbatim>\<open>SplitYAML\<close> returns an error exactly when at least one document of the
  input fails to parse, and the error is that of the first such document, whether or not
  other documents parsed. The objects of the documents that parsed (to a map that is not
  empty) are returned beside it, in the order of the input.
\<close>

theorem SplitYAML_first_error:
  "snd (SplitYAML y out) =
     (case filter (part_fails y) (Split out) of
        [] \<Rightarrow> None
      | part # _ \<Rightarrow> Some (part_error y part))
   \<and> fst (SplitYAML y out) = concat (map (part_objs y) (Split out))"
  by (simp add: SplitYAML_def SplitYAML_parts_result)

subsection \<open>\<^verbatim>\<open>DeduplicateTargetObjects\<close>\<close>

lemma appendTarget_keys:
  "map fst (appendTarget key obj tbk) =
     (if key \<in> fst ` set tbk then map fst tbk else map fst tbk @ [key])"
  by (induction tbk) (auto simp: rev_image_eqI)

lemma appendTarget_keyset:
  "fst ` set (appendTarget key obj tbk) = insert key (fst ` set tbk)"
  using appendTarget_keys [of key obj tbk, THEN arg_cong, of set]
  by (auto split: if_splits)

lemma appendTarget_distinct:
  "distinct (map fst tbk) \<Longrightarrow> distinct (map fst (appendTarget key obj tbk))"
  by (simp add: appendTarget_keys)

lemma targetsAt_Nil: "targetsAt [] k = []"
  by (simp add: targetsAt_def)

lemma targetsAt_appendTarget:
  "targetsAt (appendTarget key obj tbk) k =
     targetsAt tbk k @ (if k = key then [obj] else [])"
  by (induction tbk) (auto simp: targetsAt_def)

lemma appendTarget_nonempty:
  "\<forall>(k, ts) \<in> set tbk. ts \<noteq> [] \<Longrightarrow> \<forall>(k, ts) \<in> set (appendTarget key obj tbk). ts \<noteq> []"
  by (induction tbk) (auto split: if_splits)

lemma groupTargets_distinct:
  "distinct (map fst tbk) \<Longrightarrow> distinct (map fst (groupTargets ns ip objs tbk))"
  by (induction objs arbitrary: tbk) (simp_all add: Let_def appendTarget_distinct)

lemma groupTargets_keys:
  "fst ` set (groupTargets ns ip objs tbk) = fst ` set tbk \<union> set (targetKeys ns ip objs)"
  by (induction objs arbitrary: tbk)
    (auto simp: Let_def appendTarget_keyset targetKeys_def imputed_def)

lemma targetsAt_groupTargets:
  "targetsAt (groupTargets ns ip objs tbk) k =
     targetsAt tbk k @ filter (\<lambda>obj. GetResourceKey obj = k) (imputed ns ip objs)"
  by (induction objs arbitrary: tbk)
    (auto simp: Let_def targetsAt_appendTarget imputed_def)

lemma groupTargets_nonempty:
  "\<forall>(k, ts) \<in> set tbk. ts \<noteq> [] \<Longrightarrow> \<forall>(k, ts) \<in> set (groupTargets ns ip objs tbk). ts \<noteq> []"
proof (induction objs arbitrary: tbk)
  case Nil
  then show ?case by simp
next
  case (Cons obj objs)
  let ?o = "imputeNamespace ns ip obj"
  have "\<forall>(k, ts) \<in> set (appendTarget (GetResourceKey ?o) ?o tbk). ts \<noteq> []"
    using Cons.prems by (rule appendTarget_nonempty)
  then have "\<forall>(k, ts) \<in> set (groupTargets ns ip objs (appendTarget (GetResourceKey ?o) ?o tbk)). ts \<noteq> []"
    by (rule Cons.IH)
  then show ?case by (simp add: Let_def)
qed

lemma entry_targetsAt:
  "distinct (map fst tbk) \<Longrightarrow> (k, ts) \<in> set tbk \<Longrightarrow> targetsAt tbk k = ts"
  by (simp add: targetsAt_def)

lemma groupTargets_entry:
  assumes "(k, ts) \<in> set (groupTargets ns ip objs [])"
  shows "ts = filter (\<lambda>obj. GetResourceKey obj = k) (imputed ns ip objs)"
proof -
  have "distinct (map fst (groupTargets ns ip objs []))"
    by (rule groupTargets_distinct) simp
  then have "targetsAt (groupTargets ns ip objs []) k = ts"
    using assms by (rule entry_targetsAt)
  then show ?thesis
    by (simp add: targetsAt_groupTargets targetsAt_Nil)
qed

lemma groupTargets_entries:
  "groupTargets ns ip objs [] =
     map (\<lambda>k. (k, filter (\<lambda>obj. GetResourceKey obj = k) (imputed ns ip objs)))
       (map fst (groupTargets ns ip objs []))"
proof -
  have "\<forall>e \<in> set (groupTargets ns ip objs []).
          e = (fst e, filter (\<lambda>obj. GetResourceKey obj = fst e) (imputed ns ip objs))"
    using groupTargets_entry by (metis prod.collapse)
  then show ?thesis
    by (simp add: map_idI comp_def)
qed

lemma groupTargets_keys_mset:
  "mset (map fst (groupTargets ns ip objs [])) = mset (remdups (targetKeys ns ip objs))"
proof -
  have "distinct (map fst (groupTargets ns ip objs []))"
    by (rule groupTargets_distinct) simp
  moreover have "set (map fst (groupTargets ns ip objs [])) = set (remdups (targetKeys ns ip objs))"
    by (simp add: groupTargets_keys)
  ultimately show ?thesis
    using set_eq_iff_mset_eq_distinct [of "map fst (groupTargets ns ip objs [])"
        "remdups (targetKeys ns ip objs)"]
    by blast
qed

lemma rangeTargets_result:
  "fst (rangeTargets clock entries conditions result) = result @ map (\<lambda>(k, ts). last ts) entries"
  by (induction entries arbitrary: conditions result) (auto simp: Let_def)

lemma rangeTargets_conditions:
  "map untimed (snd (rangeTargets clock entries conditions result)) =
     map untimed conditions
     @ map (\<lambda>(k, ts). repeatedResourceWarning k (length ts))
         (filter (\<lambda>(k, ts). 1 < length ts) entries)"
  by (induction entries arbitrary: conditions result)
    (auto simp: Let_def untimed_def repeatedResourceWarning_def)


lemma length_filter_key:
  "length (filter (\<lambda>obj. GetResourceKey obj = k) (imputed ns ip objs)) = count_list (targetKeys ns ip objs) k"
  by (induction objs) (auto simp: imputed_def targetKeys_def)

lemma rangeOrder_mset: "rangeOrder visit \<Longrightarrow> mset (visit entries) = mset entries"
  by (simp add: rangeOrder_def)

lemma visited_entry:
  assumes "rangeOrder visit" and "(k, ts) \<in> set (visit (groupTargets ns ip objs []))"
  shows "ts = filter (\<lambda>obj. GetResourceKey obj = k) (imputed ns ip objs)" and "ts \<noteq> []"
proof -
  have "set (visit (groupTargets ns ip objs [])) = set (groupTargets ns ip objs [])"
    using assms(1) by (metis rangeOrder_mset mset_eq_setD)
  with assms(2) have mem: "(k, ts) \<in> set (groupTargets ns ip objs [])" by simp
  then show "ts = filter (\<lambda>obj. GetResourceKey obj = k) (imputed ns ip objs)"
    by (rule groupTargets_entry)
  have "\<forall>(k, ts) \<in> set (groupTargets ns ip objs []). ts \<noteq> []"
    by (rule groupTargets_nonempty) simp
  with mem show "ts \<noteq> []" by blast
qed

lemma last_filter_key:
  assumes "ts = filter (\<lambda>obj. GetResourceKey obj = k) xs" and "ts \<noteq> []"
  shows "GetResourceKey (last ts) = k"
proof -
  have "last ts \<in> set ts" using assms(2) by simp
  then show ?thesis using assms(1) by simp
qed

lemma Dedup_result:
  "fst (DeduplicateTargetObjects visit clock ns objs ip) =
     map (\<lambda>(k, ts). last ts) (visit (groupTargets ns ip objs []))"
  using rangeTargets_result [of clock "visit (groupTargets ns ip objs [])" "[]" "[]"]
  by (simp add: DeduplicateTargetObjects_def case_prod_beta Let_def)

lemma Dedup_conditions:
  "map untimed (fst (snd (DeduplicateTargetObjects visit clock ns objs ip))) =
     map (\<lambda>(k, ts). repeatedResourceWarning k (length ts))
       (filter (\<lambda>(k, ts). 1 < length ts) (visit (groupTargets ns ip objs [])))"
  using rangeTargets_conditions [of clock "visit (groupTargets ns ip objs [])" "[]" "[]"]
  by (simp add: DeduplicateTargetObjects_def case_prod_beta Let_def)

lemma Dedup_keys:
  assumes "rangeOrder visit"
  shows "map GetResourceKey (fst (DeduplicateTargetObjects visit clock ns objs ip)) =
           map fst (visit (groupTargets ns ip objs []))"
proof -
  have "\<forall>e \<in> set (visit (groupTargets ns ip objs [])). GetResourceKey (last (snd e)) = fst e"
    using visited_entry [OF assms] last_filter_key by (metis prod.collapse)
  then show ?thesis
    by (simp add: Dedup_result case_prod_beta)
qed

lemma visited_keys_mset:
  assumes "rangeOrder visit"
  shows "mset (map fst (visit (groupTargets ns ip objs []))) = mset (remdups (targetKeys ns ip objs))"
proof -
  have "mset (map fst (visit (groupTargets ns ip objs []))) = mset (map fst (groupTargets ns ip objs []))"
    using rangeOrder_mset [OF assms] by simp
  then show ?thesis by (simp only: groupTargets_keys_mset)
qed

lemma Dedup_one_per_key:
  assumes "rangeOrder visit"
  shows "distinct (map GetResourceKey (fst (DeduplicateTargetObjects visit clock ns objs ip)))"
    and "set (map GetResourceKey (fst (DeduplicateTargetObjects visit clock ns objs ip))) = set (targetKeys ns ip objs)"
proof -
  have m: "mset (map GetResourceKey (fst (DeduplicateTargetObjects visit clock ns objs ip)))
      = mset (remdups (targetKeys ns ip objs))"
    by (simp only: Dedup_keys [OF assms] visited_keys_mset [OF assms])
  show "distinct (map GetResourceKey (fst (DeduplicateTargetObjects visit clock ns objs ip)))"
    using m by (metis distinct_remdups mset_eq_imp_distinct_iff)
  show "set (map GetResourceKey (fst (DeduplicateTargetObjects visit clock ns objs ip))) = set (targetKeys ns ip objs)"
    using m by (metis mset_eq_setD set_remdups)
qed

lemma Dedup_last_kept:
  assumes "rangeOrder visit" and "obj \<in> set (fst (DeduplicateTargetObjects visit clock ns objs ip))"
  shows "obj = last (filter (\<lambda>x. GetResourceKey x = GetResourceKey obj) (imputed ns ip objs))"
proof -
  from assms(2) obtain k ts where e: "(k, ts) \<in> set (visit (groupTargets ns ip objs []))"
    and obj: "obj = last ts"
    by (auto simp: Dedup_result)
  have ts: "ts = filter (\<lambda>obj. GetResourceKey obj = k) (imputed ns ip objs)" and ne: "ts \<noteq> []"
    using visited_entry [OF assms(1) e] by simp_all
  have "GetResourceKey obj = k"
    using last_filter_key [OF ts ne] obj by simp
  with ts obj show ?thesis by simp
qed

lemma Dedup_warnings:
  assumes "rangeOrder visit"
  shows "mset (map untimed (fst (snd (DeduplicateTargetObjects visit clock ns objs ip)))) =
           image_mset (\<lambda>k. repeatedResourceWarning k (count_list (targetKeys ns ip objs) k))
             (filter_mset (\<lambda>k. 1 < count_list (targetKeys ns ip objs) k)
                (mset (remdups (targetKeys ns ip objs))))"
proof -
  define m where "m = groupTargets ns ip objs []"
  define F where "F = (\<lambda>k. filter (\<lambda>obj. GetResourceKey obj = k) (imputed ns ip objs))"
  define W where "W = (\<lambda>e :: ResourceKey \<times> Unstructured list. repeatedResourceWarning (fst e) (length (snd e)))"
  define P where "P = (\<lambda>e :: ResourceKey \<times> Unstructured list. 1 < length (snd e))"
  have len: "length (F k) = count_list (targetKeys ns ip objs) k" for k
    by (simp add: F_def length_filter_key)
  have 1: "map untimed (fst (snd (DeduplicateTargetObjects visit clock ns objs ip))) =
      map W (filter P (visit m))"
    by (simp add: Dedup_conditions m_def W_def P_def split_def)
  have 2: "mset (visit m) = mset m"
    by (rule rangeOrder_mset [OF assms])
  have "m = map (\<lambda>k. (k, F k)) (map fst m)"
    unfolding m_def F_def by (rule groupTargets_entries)
  then have "mset m = mset (map (\<lambda>k. (k, F k)) (map fst m))"
    by (rule arg_cong)
  then have 3: "mset m = image_mset (\<lambda>k. (k, F k)) (mset (remdups (targetKeys ns ip objs)))"
    using groupTargets_keys_mset [of ns ip objs]
    by (simp only: mset_map m_def)
  have "mset (map W (filter P (visit m))) = image_mset W (filter_mset P (mset (visit m)))"
    by simp
  also have "\<dots> = image_mset W (filter_mset P (image_mset (\<lambda>k. (k, F k)) (mset (remdups (targetKeys ns ip objs)))))"
    by (simp only: 2 3)
  also have "\<dots> = image_mset (\<lambda>k. repeatedResourceWarning k (count_list (targetKeys ns ip objs) k))
             (filter_mset (\<lambda>k. 1 < count_list (targetKeys ns ip objs) k)
                (mset (remdups (targetKeys ns ip objs))))"
    by (simp add: filter_mset_image_mset image_mset.compositionality comp_def W_def P_def len)
  finally show ?thesis
    by (simp only: 1)
qed

lemma rangeTargets_types:
  "\<forall>c \<in> set (snd (rangeTargets clock entries conditions result)).
     c \<in> set conditions \<or> Type c = ApplicationConditionRepeatedResourceWarning"
proof (induction entries arbitrary: conditions result)
  case Nil
  show ?case by simp
next
  case (Cons e entries)
  obtain k ts where e: "e = (k, ts)" by (cases e)
  show ?case
  proof (cases "1 < length ts")
    case True
    then show ?thesis
      using Cons.IH [of "conditions @ [\<lparr>Type = ApplicationConditionRepeatedResourceWarning,
          Message = repeatedResourceMessage k (length ts),
          LastTransitionTime = Some (clock (length conditions))\<rparr>]" "result @ [last ts]"]
      by (auto simp: e Let_def)
  next
    case False
    then show ?thesis
      using Cons.IH [of conditions "result @ [last ts]"]
      by (auto simp: e Let_def)
  qed
qed

lemma Dedup_condition_types:
  "\<forall>c \<in> set (fst (snd (DeduplicateTargetObjects visit clock ns objs ip))).
     Type c = ApplicationConditionRepeatedResourceWarning"
  using rangeTargets_types [of clock "visit (groupTargets ns ip objs [])" "[]" "[]"]
  by (simp add: DeduplicateTargetObjects_def case_prod_beta Let_def)

lemma rangeOrder_examples: "rangeOrder (\<lambda>entries. entries)" "rangeOrder rev"
  by (simp_all add: rangeOrder_def)

lemma imputeNamespace_eq:
  "imputeNamespace ns ip obj = obj\<lparr>objNamespace := imputedNamespace ns ip obj\<rparr>"
  by (simp add: imputeNamespace_def imputedNamespace_def SetNamespace_def GroupKind_def Let_def)

lemma imputed_key:
  "GetResourceKey (imputeNamespace ns ip obj) = imputedKey ns ip obj"
  by (simp add: imputeNamespace_eq GetResourceKey_def NewResourceKey_def imputedKey_def)

lemma targetKeys_imputedKey: "targetKeys ns ip objs = map (imputedKey ns ip) objs"
  by (simp add: targetKeys_def imputed_def imputed_key)

lemma filter_imputed:
  "filter (\<lambda>x. GetResourceKey x = k) (imputed ns ip objs) =
     map (imputeNamespace ns ip) (filter (\<lambda>obj. imputedKey ns ip obj = k) objs)"
  by (simp add: imputed_def filter_map comp_def imputed_key)

lemma digits_all:
  "\<forall>d \<in> set [0..<10]. digit_value (''0123456789'' ! d) = d \<and> is_digit (''0123456789'' ! d)"
  by code_simp

lemma digit_nth: "d < 10 \<Longrightarrow> digit_value (''0123456789'' ! d) = d \<and> is_digit (''0123456789'' ! d)"
  using digits_all by simp

lemma decimal_value_snoc: "decimal_value (ds @ [c]) = 10 * decimal_value ds + digit_value c"
  by (simp add: decimal_value_def)

lemma itoa_decimal: "decimal_value (itoa n) = n \<and> list_all is_digit (itoa n) \<and> itoa n \<noteq> []"
proof (induction n rule: itoa.induct)
  case (1 n)
  show ?case
  proof (cases "n < 10")
    case True
    then have "itoa n = [''0123456789'' ! n]" by (subst itoa.simps) simp
    with digit_nth [OF True] show ?thesis by (simp add: decimal_value_def)
  next
    case False
    then have eq: "itoa n = itoa (n div 10) @ [''0123456789'' ! (n mod 10)]"
      by (subst itoa.simps) simp
    have d: "n mod 10 < 10" by simp
    from 1 False have IH: "decimal_value (itoa (n div 10)) = n div 10"
      "list_all is_digit (itoa (n div 10))" by simp_all
    show ?thesis
      using IH digit_nth [OF d] by (simp add: eq decimal_value_snoc)
  qed
qed

lemma middle_part:
  "take (length (before @ ds @ after) - length before - length after)
     (drop (length before) (before @ ds @ after)) = ds"
  by simp

lemma says_count_repeated:
  assumes "Type c = ApplicationConditionRepeatedResourceWarning"
    and "Message c = repeatedResourceMessage k n"
  shows "says_count c k n"
proof -
  define before where "before = ''Resource '' @ Group k @ ''/'' @ Kind k @ ''/'' @ Namespace k @ ''/''
                     @ Name k @ '' appeared ''"
  define after where "after = '' times among application resources.''"
  have msg: "Message c = before @ itoa n @ after"
    by (simp add: assms(2) repeatedResourceMessage_def String_def before_def after_def)
  have mid: "take (length (Message c) - length before - length after)
      (drop (length before) (Message c)) = itoa n"
    unfolding msg by (rule middle_part)
  show ?thesis
    unfolding says_count_def Let_def before_def [symmetric] after_def [symmetric] mid
    using assms(1) msg itoa_decimal [of n] by simp
qed

lemma says_count_untimed: "says_count (untimed c) k n = says_count c k n"
  by (simp add: says_count_def untimed_def)

lemma says_count_warning: "says_count (repeatedResourceWarning k n) k n"
  by (rule says_count_repeated) (simp_all add: repeatedResourceWarning_def)

lemma Dedup_kept_object:
  assumes "rangeOrder visit" and "r \<in> set (fst (DeduplicateTargetObjects visit clock ns objs ip))"
  shows "r = (last (filter (\<lambda>obj. imputedKey ns ip obj = GetResourceKey r) objs))
               \<lparr>objNamespace := Namespace (GetResourceKey r)\<rparr>"
proof -
  from assms(2) obtain k ts where e: "(k, ts) \<in> set (visit (groupTargets ns ip objs []))"
    and r: "r = last ts"
    by (auto simp: Dedup_result)
  have ts: "ts = filter (\<lambda>obj. GetResourceKey obj = k) (imputed ns ip objs)" and ne: "ts \<noteq> []"
    using visited_entry [OF assms(1) e] by simp_all
  have key: "GetResourceKey r = k"
    using last_filter_key [OF ts ne] r by simp
  let ?same = "filter (\<lambda>obj. imputedKey ns ip obj = k) objs"
  have ts': "ts = map (imputeNamespace ns ip) ?same"
    by (simp add: ts filter_imputed)
  with ne have ne': "?same \<noteq> []" by auto
  have "\<forall>x \<in> set ?same. imputedKey ns ip x = k" by simp
  with last_in_set [OF ne'] have lastkey: "imputedKey ns ip (last ?same) = k" by blast
  have "r = imputeNamespace ns ip (last ?same)"
    using r ts' ne' by (simp add: last_map)
  also have "\<dots> = (last ?same)\<lparr>objNamespace := imputedNamespace ns ip (last ?same)\<rparr>"
    by (rule imputeNamespace_eq)
  also have "imputedNamespace ns ip (last ?same) = Namespace k"
    using arg_cong [OF lastkey, of Namespace] by (simp add: imputedKey_def)
  finally have kept: "r = (last ?same)\<lparr>objNamespace := Namespace k\<rparr>" .
  show ?thesis unfolding key by (rule kept)
qed

lemma Dedup_counts:
  assumes "rangeOrder visit"
  shows "\<exists>keys. distinct keys
           \<and> set keys = {k. 1 < count_list (map (imputedKey ns ip) objs) k}
           \<and> list_all2 (\<lambda>c k. says_count c k (count_list (map (imputedKey ns ip) objs) k))
                 (fst (snd (DeduplicateTargetObjects visit clock ns objs ip))) keys"
proof -
  define entries where "entries = visit (groupTargets ns ip objs [])"
  define F where "F = filter (\<lambda>(k, ts). 1 < length ts) entries"
  define cnt where "cnt = count_list (map (imputedKey ns ip) objs)"
  let ?conds = "fst (snd (DeduplicateTargetObjects visit clock ns objs ip))"
  have len: "length ts = cnt k" if "(k, ts) \<in> set entries" for k ts
    using visited_entry(1) [OF assms, of k ts ns ip objs] that
    by (simp add: entries_def cnt_def length_filter_key targetKeys_imputedKey)
  have keys_mset: "mset (map fst entries) = mset (remdups (map (imputedKey ns ip) objs))"
    using visited_keys_mset [OF assms, of ns ip objs]
    by (simp add: entries_def targetKeys_imputedKey)
  have dist: "distinct (map fst entries)"
    using keys_mset by (metis distinct_remdups mset_eq_imp_distinct_iff)
  have keyset: "set (map fst entries) = set (map (imputedKey ns ip) objs)"
    using keys_mset by (metis mset_eq_setD set_remdups)
  have d: "distinct (map fst F)"
    unfolding F_def using dist by (rule distinct_map_filter)
  have s: "set (map fst F) = {k. 1 < cnt k}"
  proof (intro set_eqI iffI)
    fix k assume "k \<in> set (map fst F)"
    then obtain ts where "(k, ts) \<in> set entries" "1 < length ts"
      by (auto simp: F_def)
    with len show "k \<in> {k. 1 < cnt k}" by auto
  next
    fix k assume "k \<in> {k. 1 < cnt k}"
    then have c: "1 < cnt k" by simp
    then have "k \<in> set (map (imputedKey ns ip) objs)"
      unfolding cnt_def by (metis count_list_0_iff not_less_zero)
    with keyset have "k \<in> fst ` set entries" by simp
    then obtain ts where e: "(k, ts) \<in> set entries" by force
    with len c have "1 < length ts" by simp
    with e show "k \<in> set (map fst F)" by (force simp: F_def)
  qed
  have conds: "map untimed ?conds = map (\<lambda>(k, ts). repeatedResourceWarning k (length ts)) F"
    by (simp add: Dedup_conditions F_def entries_def)
  have "list_all2 (\<lambda>c k. says_count c k (cnt k))
          (map (\<lambda>(k, ts). repeatedResourceWarning k (length ts)) F) (map fst F)"
  proof -
    have "\<forall>e \<in> set F. says_count (repeatedResourceWarning (fst e) (length (snd e))) (fst e) (cnt (fst e))"
    proof
      fix e assume "e \<in> set F"
      then have "(fst e, snd e) \<in> set entries" by (simp add: F_def)
      from len [OF this] show "says_count (repeatedResourceWarning (fst e) (length (snd e))) (fst e) (cnt (fst e))"
        using says_count_warning [of "fst e" "cnt (fst e)"] by simp
    qed
    then show ?thesis
      by (simp add: list_all2_map1 list_all2_map2 list_all2_same case_prod_beta)
  qed
  then have "list_all2 (\<lambda>c k. says_count c k (cnt k)) (map untimed ?conds) (map fst F)"
    by (simp only: conds)
  then have "list_all2 (\<lambda>c k. says_count c k (cnt k)) ?conds (map fst F)"
    by (simp add: list_all2_map1 says_count_untimed)
  with d s show ?thesis
    unfolding cnt_def by blast
qed

text \<open>
  C4, as the claim states it, fails. The two targets are the ConfigMap \<^verbatim>\<open>m\<close> without a
  namespace and the ConfigMap \<^verbatim>\<open>m\<close> in the namespace \<^verbatim>\<open>n\<close>: their resource keys differ, so
  each key occurs once in the input. With the destination namespace \<^verbatim>\<open>n\<close> the function
  rewrites the namespace of the first (lines 176 to 181) before it computes the key, files
  both under one key, returns one object and warns that the resource appeared 2 times.
\<close>

theorem DeduplicateTargetObjects_literal_keys_counterexample:
  "GetResourceKey configMap_bare \<noteq> GetResourceKey configMap_m
   \<and> DeduplicateTargetObjects (\<lambda>entries. entries) clock_example ''n''
         [configMap_bare, configMap_m] infoProvider_namespaced =
       ([configMap_m],
        [\<lparr>Type = ApplicationConditionRepeatedResourceWarning,
          Message = ''Resource /ConfigMap/n/m appeared 2 times among application resources.'',
          LastTransitionTime = Some 1000\<rparr>],
        None)"
  by code_simp

text \<open>
  C4, amended. Let the key of a target be its resource key with the namespace the function
  imputes: empty when the kind is not namespaced, the destination namespace when the kind
  is namespaced and the target names none, the target's own otherwise. Whatever order
  \<^verbatim>\<open>range\<close> visits the map in, \<^verbatim>\<open>DeduplicateTargetObjects\<close> returns exactly one object for
  each such key of the input: the resource keys of the returned objects are pairwise
  distinct and are the keys of the input. The object returned for a key is the last target
  of the input with that key, with the imputed namespace written into it. The conditions
  are, in some order, one \<^verbatim>\<open>RepeatedResourceWarning\<close> for each key that occurs more than once
  and nothing else, and the message of each reads \<^verbatim>\<open>Resource\<close>, the key, \<^verbatim>\<open>appeared\<close>, a
  decimal numeral, \<^verbatim>\<open>times among application resources.\<close>, where the value of the numeral
  is the number of targets of the input with that key.
\<close>

theorem DeduplicateTargetObjects_last_wins:
  assumes "rangeOrder visit"
  shows "distinct (map GetResourceKey (fst (DeduplicateTargetObjects visit clock ns objs ip)))
    \<and> set (map GetResourceKey (fst (DeduplicateTargetObjects visit clock ns objs ip)))
        = imputedKey ns ip ` set objs
    \<and> (\<forall>r \<in> set (fst (DeduplicateTargetObjects visit clock ns objs ip)).
          r = (last (filter (\<lambda>obj. imputedKey ns ip obj = GetResourceKey r) objs))
                \<lparr>objNamespace := Namespace (GetResourceKey r)\<rparr>)
    \<and> (\<exists>keys. distinct keys
          \<and> set keys = {k. 1 < count_list (map (imputedKey ns ip) objs) k}
          \<and> list_all2 (\<lambda>c k. says_count c k (count_list (map (imputedKey ns ip) objs) k))
                (fst (snd (DeduplicateTargetObjects visit clock ns objs ip))) keys)"
proof (intro conjI)
  show "distinct (map GetResourceKey (fst (DeduplicateTargetObjects visit clock ns objs ip)))"
    by (rule Dedup_one_per_key(1) [OF assms])
  show "set (map GetResourceKey (fst (DeduplicateTargetObjects visit clock ns objs ip)))
      = imputedKey ns ip ` set objs"
    using Dedup_one_per_key(2) [OF assms, of clock ns objs ip]
    by (simp add: targetKeys_imputedKey)
  show "\<forall>r \<in> set (fst (DeduplicateTargetObjects visit clock ns objs ip)).
          r = (last (filter (\<lambda>obj. imputedKey ns ip obj = GetResourceKey r) objs))
                \<lparr>objNamespace := Namespace (GetResourceKey r)\<rparr>"
    using Dedup_kept_object [OF assms] by blast
  show "\<exists>keys. distinct keys
          \<and> set keys = {k. 1 < count_list (map (imputedKey ns ip) objs) k}
          \<and> list_all2 (\<lambda>c k. says_count c k (count_list (map (imputedKey ns ip) objs) k))
                (fst (snd (DeduplicateTargetObjects visit clock ns objs ip))) keys"
    by (rule Dedup_counts [OF assms])
qed

theorem DeduplicateTargetObjects_last_wins_witness:
  "DeduplicateTargetObjects (\<lambda>entries. entries) clock_example ''n'' targets_repeated
       infoProvider_namespaced =
     ([configMap_m, deployment_web_2],
      [\<lparr>Type = ApplicationConditionRepeatedResourceWarning,
        Message = ''Resource /ConfigMap/n/m appeared 2 times among application resources.'',
        LastTransitionTime = Some 1000\<rparr>,
       \<lparr>Type = ApplicationConditionRepeatedResourceWarning,
        Message = ''Resource apps/Deployment/n/web appeared 2 times among application resources.'',
        LastTransitionTime = Some 1001\<rparr>],
      None)
   \<and> map (imputedKey ''n'' infoProvider_namespaced) targets_repeated
       = [GetResourceKey configMap_m, GetResourceKey deployment_web,
          GetResourceKey configMap_m, GetResourceKey deployment_web]
   \<and> distinct (map GetResourceKey [configMap_m, deployment_web_2])
   \<and> set (map GetResourceKey [configMap_m, deployment_web_2])
       = imputedKey ''n'' infoProvider_namespaced ` set targets_repeated
   \<and> says_count
         \<lparr>Type = ApplicationConditionRepeatedResourceWarning,
          Message = ''Resource /ConfigMap/n/m appeared 2 times among application resources.'',
          LastTransitionTime = Some 1000\<rparr>
         (GetResourceKey configMap_m) 2
   \<and> says_count
         \<lparr>Type = ApplicationConditionRepeatedResourceWarning,
          Message = ''Resource apps/Deployment/n/web appeared 2 times among application resources.'',
          LastTransitionTime = Some 1001\<rparr>
         (GetResourceKey deployment_web) 2"
proof -
  have run: "DeduplicateTargetObjects (\<lambda>entries. entries) clock_example ''n'' targets_repeated
       infoProvider_namespaced =
     ([configMap_m, deployment_web_2],
      [\<lparr>Type = ApplicationConditionRepeatedResourceWarning,
        Message = ''Resource /ConfigMap/n/m appeared 2 times among application resources.'',
        LastTransitionTime = Some 1000\<rparr>,
       \<lparr>Type = ApplicationConditionRepeatedResourceWarning,
        Message = ''Resource apps/Deployment/n/web appeared 2 times among application resources.'',
        LastTransitionTime = Some 1001\<rparr>],
      None)"
    by code_simp
  have keys: "map (imputedKey ''n'' infoProvider_namespaced) targets_repeated
       = [GetResourceKey configMap_m, GetResourceKey deployment_web,
          GetResourceKey configMap_m, GetResourceKey deployment_web]"
    by code_simp
  have first: "says_count
         \<lparr>Type = ApplicationConditionRepeatedResourceWarning,
          Message = ''Resource /ConfigMap/n/m appeared 2 times among application resources.'',
          LastTransitionTime = Some 1000\<rparr>
         (GetResourceKey configMap_m) 2"
    by code_simp
  have second: "says_count
         \<lparr>Type = ApplicationConditionRepeatedResourceWarning,
          Message = ''Resource apps/Deployment/n/web appeared 2 times among application resources.'',
          LastTransitionTime = Some 1001\<rparr>
         (GetResourceKey deployment_web) 2"
    by code_simp
  have one: "distinct (map GetResourceKey [configMap_m, deployment_web_2])
     \<and> set (map GetResourceKey [configMap_m, deployment_web_2])
       = imputedKey ''n'' infoProvider_namespaced ` set targets_repeated"
    using DeduplicateTargetObjects_last_wins [OF rangeOrder_examples(1), of clock_example "''n''"
      targets_repeated infoProvider_namespaced]
    unfolding run fst_conv by (intro conjI) (erule conjE, assumption, (erule conjE)+, assumption)
  show ?thesis
    by (intro conjI) (rule run, rule keys, rule one [THEN conjunct1], rule one [THEN conjunct2],
      rule first, rule second)
qed





text \<open>
  C10. The third result of \<^verbatim>\<open>DeduplicateTargetObjects\<close> is \<^verbatim>\<open>nil\<close> for every input and
  every order of iteration. So in \<^verbatim>\<open>CompareAppState\<close> the branch \<^verbatim>\<open>if err != nil\<close> after the
  call is never taken: the conditions after lines 268 to 272 are the conditions before
  them followed by the conditions of the deduplication, and the \<^verbatim>\<open>ComparisonError\<close>
  conditions among them are those that were there before.
\<close>

theorem DeduplicateTargetObjects_no_error:
  "snd (snd (DeduplicateTargetObjects visit clock ns objs ip)) = None
   \<and> snd (deduplicate m app ip now targetObjs conditions) =
       conditions @ fst (snd (DeduplicateTargetObjects (rangeTargetByKey m) (dedupNow m)
                               (destNamespace (appDestination app)) targetObjs ip))
   \<and> filter (\<lambda>c. Type c = ApplicationConditionComparisonError)
         (snd (deduplicate m app ip now targetObjs conditions))
       = filter (\<lambda>c. Type c = ApplicationConditionComparisonError) conditions"
proof -
  let ?d = "DeduplicateTargetObjects (rangeTargetByKey m) (dedupNow m)
              (destNamespace (appDestination app)) targetObjs ip"
  have none: "snd (snd (DeduplicateTargetObjects v c n os p)) = None" for v c n os p
    by (simp add: DeduplicateTargetObjects_def case_prod_beta Let_def)
  have app: "snd (deduplicate m app ip now targetObjs conditions) = conditions @ fst (snd ?d)"
    using none [of "rangeTargetByKey m" "dedupNow m" "destNamespace (appDestination app)" targetObjs ip]
    by (simp add: deduplicate_def case_prod_beta Let_def)
  have "filter (\<lambda>c. Type c = ApplicationConditionComparisonError) (fst (snd ?d)) = []"
    using Dedup_condition_types [of "rangeTargetByKey m" "dedupNow m"
        "destNamespace (appDestination app)" targetObjs ip]
    by (simp add: filter_empty_conv)
  with none app show ?thesis by simp
qed

subsection \<open>The loop over the slots\<close>

lemma statusLoop_aligned:
  assumes "length ls = length ts" and "length ds = length ts"
  shows "\<exists>c slots. statusLoop m app project failed ts ls ds code = Inr (c, slots)
           \<and> length slots = length ts"
  using assms
proof (induction ts arbitrary: ls ds code)
  case Nil
  then show ?case by simp
next
  case (Cons t ts)
  then obtain l ls' where ls: "ls = l # ls'" and l1: "length ls' = length ts"
    by (cases ls) auto
  from Cons.prems obtain d ds' where ds: "ds = d # ds'" and l2: "length ds' = length ts"
    by (cases ds) auto
  show ?case
  proof (cases "slotObject t l")
    case None
    from Cons.IH [OF l1 l2, of code] obtain c slots where
      "statusLoop m app project failed ts ls' ds' code = Inr (c, slots)" "length slots = length ts"
      by blast
    with None show ?thesis by (simp add: ls ds)
  next
    case (Some obj)
    obtain c' rs mr where st: "slotStatus m app project failed code t l obj d = (c', rs, mr)"
      by (cases "slotStatus m app project failed code t l obj d") auto
    from Cons.IH [OF l1 l2, of c'] obtain c slots where
      "statusLoop m app project failed ts ls' ds' c' = Inr (c, slots)" "length slots = length ts"
      by blast
    with Some st show ?thesis by (simp add: ls ds)
  qed
qed

lemma statusLoop_append:
  assumes "length ls1 = length ts1" and "length ds1 = length ts1"
  shows "statusLoop m app project failed (ts1 @ ts2) (ls1 @ ls2) (ds1 @ ds2) code =
           (case statusLoop m app project failed ts1 ls1 ds1 code of
              Inl p \<Rightarrow> Inl p
            | Inr (c1, slots1) \<Rightarrow>
                (case statusLoop m app project failed ts2 ls2 ds2 c1 of
                   Inl p \<Rightarrow> Inl p
                 | Inr (c2, slots2) \<Rightarrow> Inr (c2, slots1 @ slots2)))"
  using assms
proof (induction ts1 arbitrary: ls1 ds1 code)
  case Nil
  then show ?case by (simp split: sum.splits)
next
  case (Cons t ts)
  then obtain l ls' where ls: "ls1 = l # ls'" and l1: "length ls' = length ts"
    by (cases ls1) auto
  from Cons.prems obtain d ds' where ds: "ds1 = d # ds'" and l2: "length ds' = length ts"
    by (cases ds1) auto
  show ?case
  proof (cases "slotObject t l")
    case None
    then show ?thesis
      by (simp add: ls ds Cons.IH [OF l1 l2] split: sum.splits prod.splits)
  next
    case (Some obj)
    obtain c' rs mr where st: "slotStatus m app project failed code t l obj d = (c', rs, mr)"
      by (cases "slotStatus m app project failed code t l obj d") auto
    with Some show ?thesis
      by (simp add: ls ds Cons.IH [OF l1 l2] split: sum.splits prod.splits)
  qed
qed

lemma slotStatus_code:
  "fst (slotStatus m app project failed code t l obj d) =
     (if IsHook m obj \<or> Ignore m obj then code
      else if Modified d \<or> t = None \<or> l = None then
        (if t = None \<and> l \<noteq> None \<and> HasAnnotationOption m obj (AnnotationCompareOptions m) ''IgnoreExtraneous''
         then code else SyncStatusCodeOutOfSync)
      else code)"
  by (simp add: slotStatus_def Let_def case_prod_beta)

lemma slotStatus_status:
  "rs_Status (fst (snd (slotStatus m app project failed code t l obj d))) =
     (if failed then SyncStatusCodeUnknown
      else if \<not> IsGroupKindPermitted project (GroupKind obj)
                 (fst (IsNamespaced m (Server (appDestination app)) (GroupKind obj))
                  \<and> snd (IsNamespaced m (Server (appDestination app)) (GroupKind obj)) = None)
      then SyncStatusCodeUnknown
      else if IsHook m obj \<or> Ignore m obj then SyncStatusCodeNone
      else if Modified d \<or> t = None \<or> l = None then SyncStatusCodeOutOfSync
      else SyncStatusCodeSynced)"
  by (simp add: slotStatus_def Let_def case_prod_beta)

lemma slotStatus_pruning:
  "rs_RequiresPruning (fst (snd (slotStatus m app project failed code t l obj d))) = (t = None \<and> l \<noteq> None)"
  by (simp add: slotStatus_def Let_def case_prod_beta)

lemma slotStatus_sticky:
  "fst (slotStatus m app project failed SyncStatusCodeOutOfSync t l obj d) = SyncStatusCodeOutOfSync"
  by (simp add: slotStatus_code)

lemma statusLoop_sticky:
  "statusLoop m app project failed ts ls ds SyncStatusCodeOutOfSync = Inr (c, slots)
    \<Longrightarrow> c = SyncStatusCodeOutOfSync"
proof (induction m app project failed ts ls ds SyncStatusCodeOutOfSync arbitrary: c slots rule: statusLoop.induct)
  case (1 m app project failedToLoadObjs lives diffs)
  then show ?case by simp
next
  case (2 m app project failedToLoadObjs targetObj targets diffs)
  then show ?case by simp
next
  case (3 m app project failedToLoadObjs targetObj targets liveObj lives diffs)
  show ?case
  proof (cases "slotObject targetObj liveObj")
    case None
    with 3 show ?thesis by (auto split: sum.splits)
  next
    case (Some obj)
    show ?thesis
    proof (cases diffs)
      case Nil
      with Some 3 show ?thesis by simp
    next
      case (Cons d ds')
      have "fst (slotStatus m app project failedToLoadObjs SyncStatusCodeOutOfSync targetObj liveObj obj d) = SyncStatusCodeOutOfSync"
        by (rule slotStatus_sticky)
      then obtain rs mr where st: "slotStatus m app project failedToLoadObjs SyncStatusCodeOutOfSync targetObj liveObj obj d
           = (SyncStatusCodeOutOfSync, rs, mr)"
        by (cases "slotStatus m app project failedToLoadObjs SyncStatusCodeOutOfSync targetObj liveObj obj d") auto
      with Some Cons 3 show ?thesis by (auto split: sum.splits)
    qed
  qed
qed


lemma statusLoop_around:
  assumes "length ls1 = length ts1" and "length ds1 = length ts1"
    and "slotObject t l = Some obj"
  shows "\<exists>c1 slots1. statusLoop m app project failed ts1 ls1 ds1 code = Inr (c1, slots1)
           \<and> length slots1 = length ts1
           \<and> statusLoop m app project failed (ts1 @ ts2) (ls1 @ ls2) (ds1 @ ds2) code =
               (case statusLoop m app project failed ts2 ls2 ds2 c1 of
                  Inl p \<Rightarrow> Inl p
                | Inr (c2, slots2) \<Rightarrow> Inr (c2, slots1 @ slots2))
           \<and> statusLoop m app project failed (ts1 @ t # ts2) (ls1 @ l # ls2) (ds1 @ d # ds2) code =
               (case statusLoop m app project failed ts2 ls2 ds2
                       (fst (slotStatus m app project failed c1 t l obj d)) of
                  Inl p \<Rightarrow> Inl p
                | Inr (c2, slots2) \<Rightarrow>
                    Inr (c2, slots1 @ snd (slotStatus m app project failed c1 t l obj d) # slots2))"
proof -
  from statusLoop_aligned [OF assms(1,2)] obtain c1 slots1 where
    pre: "statusLoop m app project failed ts1 ls1 ds1 code = Inr (c1, slots1)"
    and len: "length slots1 = length ts1"
    by blast
  have without: "statusLoop m app project failed (ts1 @ ts2) (ls1 @ ls2) (ds1 @ ds2) code =
      (case statusLoop m app project failed ts2 ls2 ds2 c1 of
         Inl p \<Rightarrow> Inl p
       | Inr (c2, slots2) \<Rightarrow> Inr (c2, slots1 @ slots2))"
    by (simp add: statusLoop_append [OF assms(1,2)] pre)
  have "statusLoop m app project failed (ts1 @ t # ts2) (ls1 @ l # ls2) (ds1 @ d # ds2) code =
      (case statusLoop m app project failed (t # ts2) (l # ls2) (d # ds2) c1 of
         Inl p \<Rightarrow> Inl p
       | Inr (c2, slots2) \<Rightarrow> Inr (c2, slots1 @ slots2))"
    by (simp add: statusLoop_append [OF assms(1,2)] pre)
  also have "\<dots> =
      (case statusLoop m app project failed ts2 ls2 ds2
              (fst (slotStatus m app project failed c1 t l obj d)) of
         Inl p \<Rightarrow> Inl p
       | Inr (c2, slots2) \<Rightarrow>
           Inr (c2, slots1 @ snd (slotStatus m app project failed c1 t l obj d) # slots2))"
    using assms(3) by (simp add: case_prod_beta split: sum.splits)
  finally show ?thesis
    using pre len without by blast
qed

text \<open>
  C7, as the claim states it, fails. The manifests cannot be generated, so there are no
  targets and the flag \<^verbatim>\<open>failedToLoadObjs\<close> is set; the live ConfigMap is a prune candidate
  that is neither a hook nor ignored, and its status in the result is Unknown, not
  OutOfSync: line 381 overwrites what line 364 had set. So does line 376 in a pass that
  loads everything, when the cache cannot tell that the kind is namespaced and the
  project permits namespaced kinds only.
\<close>

theorem prune_candidate_counterexample:
  "outcome (CompareAppState manager_no_manifests app_example project_permissive [] source_example
              False [])
     = Inr ([None], [Some configMap_m], [SyncStatusCodeUnknown], Some SyncStatusCodeUnknown)
   \<and> \<not> IsHook manager_no_manifests configMap_m
   \<and> \<not> Ignore manager_no_manifests configMap_m
   \<and> outcome (CompareAppState manager_cache_error app_example project_namespaced_only []
                source_example False [])
     = Inr ([Some deployment_web, None], [None, Some configMap_m],
            [SyncStatusCodeUnknown, SyncStatusCodeUnknown], Some SyncStatusCodeOutOfSync)"
  by code_simp

text \<open>
  C7, amended. Take a slot without target and with a live object that is neither a hook
  nor ignored, at any index (the same in the three slices), in a run of the loop that
  completes. Its entry requires pruning, and its status
  is OutOfSync unless it is overwritten with Unknown, which happens exactly when the
  project does not permit the object's group and kind or \<^verbatim>\<open>failedToLoadObjs\<close> is set. If
  the live object carries the compare option \<^verbatim>\<open>IgnoreExtraneous\<close>, the aggregate code the
  loop ends with is the one it ends with on the other slots alone; otherwise it is
  OutOfSync. (\<^verbatim>\<open>CompareAppState\<close> then reports that code, or Unknown when
  \<^verbatim>\<open>failedToLoadObjs\<close> is set.)
\<close>

theorem prune_candidate_status:
  assumes "length ls1 = length ts1" and "length ds1 = length ts1"
    and "\<not> IsHook m live" and "\<not> Ignore m live"
    and "statusLoop m app project failed (ts1 @ None # ts2) (ls1 @ Some live # ls2) (ds1 @ d # ds2) code0
           = Inr (code, slots)"
  shows "rs_RequiresPruning (fst (slots ! length ts1))
    \<and> rs_Status (fst (slots ! length ts1)) =
        (if failed \<or> \<not> IsGroupKindPermitted project (GroupKind live)
                 (fst (IsNamespaced m (Server (appDestination app)) (GroupKind live))
                  \<and> snd (IsNamespaced m (Server (appDestination app)) (GroupKind live)) = None)
         then SyncStatusCodeUnknown else SyncStatusCodeOutOfSync)
    \<and> (if HasAnnotationOption m live (AnnotationCompareOptions m) ''IgnoreExtraneous''
        then map_sum id fst (statusLoop m app project failed (ts1 @ ts2) (ls1 @ ls2) (ds1 @ ds2) code0)
               = Inr code
        else code = SyncStatusCodeOutOfSync)"
proof -
  have obj: "slotObject None (Some live) = Some live"
    by (simp add: slotObject_def)
  from statusLoop_around [OF assms(1,2) obj, of m app project failed code0 ts2 ls2 ds2 d]
  obtain c1 slots1 where len: "length slots1 = length ts1"
    and without: "statusLoop m app project failed (ts1 @ ts2) (ls1 @ ls2) (ds1 @ ds2) code0 =
      (case statusLoop m app project failed ts2 ls2 ds2 c1 of
         Inl p \<Rightarrow> Inl p
       | Inr (c2, slots2) \<Rightarrow> Inr (c2, slots1 @ slots2))"
    and withSlot: "statusLoop m app project failed (ts1 @ None # ts2) (ls1 @ Some live # ls2) (ds1 @ d # ds2) code0 =
      (case statusLoop m app project failed ts2 ls2 ds2
              (fst (slotStatus m app project failed c1 None (Some live) live d)) of
         Inl p \<Rightarrow> Inl p
       | Inr (c2, slots2) \<Rightarrow>
           Inr (c2, slots1 @ snd (slotStatus m app project failed c1 None (Some live) live d) # slots2))"
    by blast
  let ?c = "fst (slotStatus m app project failed c1 None (Some live) live d)"
  from withSlot assms(5) obtain slots2 where
    rest: "statusLoop m app project failed ts2 ls2 ds2 ?c = Inr (code, slots2)"
    and slots: "slots = slots1 @ snd (slotStatus m app project failed c1 None (Some live) live d) # slots2"
    by (auto split: sum.splits)
  have entry: "slots ! length ts1 = snd (slotStatus m app project failed c1 None (Some live) live d)"
    using slots len by (simp add: nth_append)
  have pruning: "rs_RequiresPruning (fst (slots ! length ts1))"
    by (simp add: entry slotStatus_pruning)
  have status: "rs_Status (fst (slots ! length ts1)) =
        (if failed \<or> \<not> IsGroupKindPermitted project (GroupKind live)
                 (fst (IsNamespaced m (Server (appDestination app)) (GroupKind live))
                  \<and> snd (IsNamespaced m (Server (appDestination app)) (GroupKind live)) = None)
         then SyncStatusCodeUnknown else SyncStatusCodeOutOfSync)"
    using assms(3,4) by (simp add: entry slotStatus_status)
  have aggregate: "(if HasAnnotationOption m live (AnnotationCompareOptions m) ''IgnoreExtraneous''
        then map_sum id fst (statusLoop m app project failed (ts1 @ ts2) (ls1 @ ls2) (ds1 @ ds2) code0)
               = Inr code
        else code = SyncStatusCodeOutOfSync)"
  proof (cases "HasAnnotationOption m live (AnnotationCompareOptions m) ''IgnoreExtraneous''")
    case True
    then have "?c = c1" using assms(3,4) by (simp add: slotStatus_code)
    with rest without True show ?thesis by simp
  next
    case False
    then have "?c = SyncStatusCodeOutOfSync" using assms(3,4) by (simp add: slotStatus_code)
    with rest have "code = SyncStatusCodeOutOfSync"
      using statusLoop_sticky by metis
    with False show ?thesis by simp
  qed
  from pruning status aggregate show ?thesis by blast
qed

theorem prune_candidate_status_witness:
  "map_sum id (\<lambda>(code, slots). (code, map (\<lambda>(rs, mr). (rs_Status rs, rs_RequiresPruning rs)) slots))
     (statusLoop manager_example app_example project_permissive False
        [Some deployment_web, None] [Some deployment_web, Some configMap_extraneous]
        [diff_unmodified, diff_unmodified] SyncStatusCodeSynced)
   = Inr (SyncStatusCodeSynced, [(SyncStatusCodeSynced, False), (SyncStatusCodeOutOfSync, True)])"
proof -
  let ?run = "statusLoop manager_example app_example project_permissive False
        ([Some deployment_web] @ None # []) ([Some deployment_web] @ Some configMap_extraneous # [])
        ([diff_unmodified] @ diff_unmodified # []) SyncStatusCodeSynced"
  have a: "length [Some deployment_web] = length [Some deployment_web]" by simp
  have b: "length [diff_unmodified] = length [Some deployment_web]" by simp
  have h: "\<not> IsHook manager_example configMap_extraneous" by code_simp
  have i: "\<not> Ignore manager_example configMap_extraneous" by code_simp
  have run: "?run = Inr (SyncStatusCodeSynced, snd (projr ?run))" by code_simp
  show ?thesis
    using prune_candidate_status [OF a b h i run] by code_simp
qed

text \<open>
  C8, as the claim states it, fails. The local manifests hold the Job \<^verbatim>\<open>migrate\<close>, which
  is not live: the aggregate is OutOfSync. Adding a manifest of the same Job annotated as
  a hook gives a second target with the same resource key;
  \<^verbatim>\<open>DeduplicateTargetObjects\<close> keeps the last of the two, the only slot is now a hook, and
  the aggregate is Synced.
\<close>

theorem hook_added_counterexample:
  "outcome (CompareAppState manager_local app_example project_permissive [] source_example False
              [''job migrate''])
     = Inr ([Some job_plain], [None], [SyncStatusCodeOutOfSync], Some SyncStatusCodeOutOfSync)
   \<and> outcome (CompareAppState manager_local app_example project_permissive [] source_example False
              [''job migrate'', ''job migrate, hook''])
     = Inr ([Some job_hook], [None], [SyncStatusCodeNone], Some SyncStatusCodeSynced)
   \<and> IsHook manager_local job_hook"
  by code_simp

text \<open>
  C8, amended. A slot whose object is a hook or carries the Ignore annotation leaves the
  aggregate code as it finds it, whatever its diff. So a run of the loop over slots to
  which such a slot is added, at any index (the same in the three slices), ends with the
  same aggregate code as the run over the other slots alone, or panics as that run does. (A hook manifest with the resource key of another target is
  not a slot of its own: the deduplication keeps one of the two.)
\<close>

theorem hook_slot_neutral:
  assumes "length ls1 = length ts1" and "length ds1 = length ts1"
    and "slotObject t l = Some obj"
    and "IsHook m obj \<or> Ignore m obj"
  shows "fst (slotStatus m app project failed code t l obj d) = code
    \<and> map_sum id fst (statusLoop m app project failed (ts1 @ t # ts2) (ls1 @ l # ls2) (ds1 @ d # ds2) code0)
      = map_sum id fst (statusLoop m app project failed (ts1 @ ts2) (ls1 @ ls2) (ds1 @ ds2) code0)"
proof -
  have same: "fst (slotStatus m app project failed c t l obj d) = c" for c
    using assms(4) by (simp add: slotStatus_code)
  from statusLoop_around [OF assms(1-3), of m app project failed code0 ts2 ls2 ds2 d]
  obtain c1 slots1 where
    without: "statusLoop m app project failed (ts1 @ ts2) (ls1 @ ls2) (ds1 @ ds2) code0 =
      (case statusLoop m app project failed ts2 ls2 ds2 c1 of
         Inl p \<Rightarrow> Inl p
       | Inr (c2, slots2) \<Rightarrow> Inr (c2, slots1 @ slots2))"
    and withSlot: "statusLoop m app project failed (ts1 @ t # ts2) (ls1 @ l # ls2) (ds1 @ d # ds2) code0 =
      (case statusLoop m app project failed ts2 ls2 ds2
              (fst (slotStatus m app project failed c1 t l obj d)) of
         Inl p \<Rightarrow> Inl p
       | Inr (c2, slots2) \<Rightarrow>
           Inr (c2, slots1 @ snd (slotStatus m app project failed c1 t l obj d) # slots2))"
    by blast
  have "map_sum id fst (statusLoop m app project failed (ts1 @ t # ts2) (ls1 @ l # ls2) (ds1 @ d # ds2) code0)
      = map_sum id fst (statusLoop m app project failed (ts1 @ ts2) (ls1 @ ls2) (ds1 @ ds2) code0)"
    by (simp add: withSlot without same split: sum.splits)
  with same show ?thesis by simp
qed

theorem hook_slot_neutral_witness:
  "map_sum id fst
     (statusLoop manager_example app_example project_permissive False
        [Some deployment_web, Some job_hook] [Some deployment_web, None]
        [diff_unmodified, diff_unmodified] SyncStatusCodeSynced)
   = Inr SyncStatusCodeSynced
   \<and> map_sum id fst
     (statusLoop manager_example app_example project_permissive False
        [Some deployment_web] [Some deployment_web] [diff_unmodified] SyncStatusCodeSynced)
   = Inr SyncStatusCodeSynced"
proof -
  have a: "length [Some deployment_web] = length [Some deployment_web]" by simp
  have b: "length [diff_unmodified] = length [Some deployment_web]" by simp
  have obj: "slotObject (Some job_hook) None = Some job_hook" by (simp add: slotObject_def)
  have h: "IsHook manager_example job_hook \<or> Ignore manager_example job_hook" by code_simp
  show ?thesis
    using hook_slot_neutral [OF a b obj h, of app_example project_permissive False
        SyncStatusCodeSynced diff_unmodified "[]" "[]" "[]" SyncStatusCodeSynced]
    by code_simp
qed

subsection \<open>\<^verbatim>\<open>CompareAppState\<close>\<close>

text \<open>On the runs of the loop that complete with \<^verbatim>\<open>failedToLoadObjs\<close> set, every entry
  is Unknown or is the zero value of a slot that has no object.\<close>

lemma statusLoop_failed:
  "statusLoop m app project True ts ls ds code = Inr (c, slots)
    \<Longrightarrow> \<forall>(rs, mr) \<in> set slots. rs = zeroResourceStatus \<or> rs_Status rs = SyncStatusCodeUnknown"
proof (induction ts arbitrary: ls ds code c slots)
  case Nil
  then show ?case by simp
next
  case (Cons t ts)
  then obtain l ls' where ls: "ls = l # ls'" by (cases ls) auto
  show ?case
  proof (cases "slotObject t l")
    case None
    with Cons.prems ls obtain slots' where
      "statusLoop m app project True ts ls' (drop 1 ds) code = Inr (c, slots')"
      "slots = (zeroResourceStatus, zeroManagedResource) # slots'"
      by (auto split: sum.splits)
    then show ?thesis using Cons.IH [of ls' "drop 1 ds" code c slots'] by simp
  next
    case (Some obj)
    with Cons.prems ls obtain d ds' where ds: "ds = d # ds'" by (cases ds) auto
    from Some Cons.prems ls ds obtain slots' where
      rest: "statusLoop m app project True ts ls' ds' (fst (slotStatus m app project True code t l obj d))
         = Inr (c, slots')"
      and slots: "slots = snd (slotStatus m app project True code t l obj d) # slots'"
      by (auto split: sum.splits prod.splits)
    have "rs_Status (fst (snd (slotStatus m app project True code t l obj d))) = SyncStatusCodeUnknown"
      by (simp add: slotStatus_status)
    then show ?thesis
      using Cons.IH [OF rest] by (simp add: slots case_prod_beta)
  qed
qed

text \<open>A pass that does not return early is the loop over the reconciled slots, from the
  code Synced; the aggregate reported is the code of the loop, or Unknown when
  \<^verbatim>\<open>failedToLoadObjs\<close> is set.\<close>

lemma CompareAppState_loop:
  assumes "CompareAppState m app project revision source noCache localManifests = Inr (res, Some conds)"
  shows "\<exists>failed diffs code slots.
           statusLoop m app project failed (Target (reconciliationResult res))
             (Live (reconciliationResult res)) diffs SyncStatusCodeSynced = Inr (code, slots)
           \<and> resources res = map fst slots
           \<and> managedResources res = map snd slots
           \<and> map_option ss_Status (syncStatus res)
               = Some (if failed then SyncStatusCodeUnknown else code)"
proof (cases "getComparisonSettings m app")
  case (Inl err)
  with assms show ?thesis by (simp add: CompareAppState_def)
next
  case (Inr settings)
  obtain appLabelKey resourceOverrides normalizer where
    settings: "settings = (appLabelKey, resourceOverrides, normalizer)"
    by (cases settings) auto
  obtain targetObjs0 manifestInfo conditions0 failed0 where
    s1: "loadTargetObjs m app source appLabelKey revision noCache localManifests (Now m)
          = (targetObjs0, manifestInfo, conditions0, failed0)"
    by (cases "loadTargetObjs m app source appLabelKey revision noCache localManifests (Now m)") auto
  obtain targetObjs1 conditions1 where
    s2: "deduplicate m app (clusterInfoProvider m app) (Now m) targetObjs0 conditions0
          = (targetObjs1, conditions1)"
    by (cases "deduplicate m app (clusterInfoProvider m app) (Now m) targetObjs0 conditions0") auto
  obtain targetObjs conditions2 where
    s3: "filterTargetObjs m app (Now m) targetObjs1 conditions1 = (targetObjs, conditions2)"
    by (cases "filterTargetObjs m app (Now m) targetObjs1 conditions1") auto
  obtain liveObjByKey conditions3 failed1 where
    s4: "loadLiveObjs m app project (Now m) targetObjs conditions2 failed0
          = (liveObjByKey, conditions3, failed1)"
    by (cases "loadLiveObjs m app project (Now m) targetObjs conditions2 failed0") auto
  define reconciliation where
    "reconciliation = Reconcile m targetObjs liveObjByKey (destNamespace (appDestination app))
       (clusterInfoProvider m app)"
  obtain diffResults conditions5 failed where
    s5: "diffSlots m reconciliation normalizer (Now m)
           (sharedResourceWarnings app appLabelKey (Now m) liveObjByKey conditions3) failed1
          = (diffResults, conditions5, failed)"
    by (cases "diffSlots m reconciliation normalizer (Now m)
           (sharedResourceWarnings app appLabelKey (Now m) liveObjByKey conditions3) failed1") auto
  from assms obtain code slots where
    loop: "statusLoop m app project failed (Target reconciliation) (Live reconciliation)
             (Diffs diffResults) SyncStatusCodeSynced = Inr (code, slots)"
    unfolding CompareAppState_def Let_def
    by (simp add: Inr settings s1 s2 s3 s4 s5 reconciliation_def [symmetric] split: sum.splits prod.splits)
  from assms loop have
    "reconciliationResult res = reconciliation"
    "resources res = map fst slots"
    "managedResources res = map snd slots"
    "map_option ss_Status (syncStatus res) = Some (if failed then SyncStatusCodeUnknown else code)"
    unfolding CompareAppState_def Let_def
    by (auto simp: Inr settings s1 s2 s3 s4 s5 reconciliation_def [symmetric] split: prod.splits)
  with loop show ?thesis by metis
qed

lemma statusLoop_code:
  "statusLoop m app project failed ts ls ds code = Inr (c, slots)
    \<Longrightarrow> c = code \<or> c = SyncStatusCodeOutOfSync"
proof (induction ts arbitrary: ls ds code c slots)
  case Nil
  then show ?case by simp
next
  case (Cons t ts)
  then obtain l ls' where ls: "ls = l # ls'" by (cases ls) auto
  show ?case
  proof (cases "slotObject t l")
    case None
    with Cons.prems ls obtain slots' where
      "statusLoop m app project failed ts ls' (drop 1 ds) code = Inr (c, slots')"
      by (auto split: sum.splits)
    then show ?thesis by (rule Cons.IH)
  next
    case (Some obj)
    with Cons.prems ls obtain d ds' where ds: "ds = d # ds'" by (cases ds) auto
    from Some Cons.prems ls ds obtain slots' where
      rest: "statusLoop m app project failed ts ls' ds' (fst (slotStatus m app project failed code t l obj d))
         = Inr (c, slots')"
      by (auto split: sum.splits prod.splits)
    have "fst (slotStatus m app project failed code t l obj d) = code
        \<or> fst (slotStatus m app project failed code t l obj d) = SyncStatusCodeOutOfSync"
      by (simp add: slotStatus_code)
    with Cons.IH [OF rest] show ?thesis by auto
  qed
qed

text \<open>On the passes that return with the aggregate Unknown, every entry of \<^verbatim>\<open>resources\<close>
  is Unknown or is the zero value of a slot that has no object.\<close>

lemma CompareAppState_failed:
  assumes "CompareAppState m app project revision source noCache localManifests = Inr (res, Some conds)"
    and "map_option ss_Status (syncStatus res) = Some SyncStatusCodeUnknown"
  shows "\<forall>rs \<in> set (resources res). rs = zeroResourceStatus \<or> rs_Status rs = SyncStatusCodeUnknown"
proof -
  from CompareAppState_loop [OF assms(1)] obtain failed diffs code slots where
    loop: "statusLoop m app project failed (Target (reconciliationResult res))
             (Live (reconciliationResult res)) diffs SyncStatusCodeSynced = Inr (code, slots)"
    and res: "resources res = map fst slots"
    and agg: "map_option ss_Status (syncStatus res) = Some (if failed then SyncStatusCodeUnknown else code)"
    by blast
  from statusLoop_code [OF loop] have "code \<noteq> SyncStatusCodeUnknown" by auto
  with agg assms(2) have failed by (auto split: if_splits)
  with loop have "\<forall>(rs, mr) \<in> set slots. rs = zeroResourceStatus \<or> rs_Status rs = SyncStatusCodeUnknown"
    using statusLoop_failed by simp
  then show ?thesis by (auto simp: res)
qed

text \<open>
  C3. When the diff of the slots fails, \<^verbatim>\<open>CompareAppState\<close> sets \<^verbatim>\<open>failedToLoadObjs\<close> and
  replaces \<^verbatim>\<open>diffResults\<close> by an empty \<^verbatim>\<open>DiffResultList\<close>; the loop then reads
  \<^verbatim>\<open>diffResults.Diffs[i]\<close> for the first slot that has an object, and the index is out of
  range. With one target (the Deployment) and a failing diff, the pass does not return a
  result with Unknown statuses: it panics.
\<close>

theorem CompareAppState_diff_error_panics:
  "CompareAppState manager_diff_fails app_example project_permissive [] source_example False []
     = Inl IndexOutOfRange"
  by code_simp

text \<open>
  C6. If \<^verbatim>\<open>getComparisonSettings\<close> returns an error, \<^verbatim>\<open>CompareAppState\<close> returns at once
  (no condition is set on the application): the sync status is Unknown and compared to
  the given source and the destination of the application, the health status is Unknown,
  and \<^verbatim>\<open>resources\<close> and \<^verbatim>\<open>managedResources\<close> are empty.
\<close>

theorem CompareAppState_settings_error:
  assumes "getComparisonSettings m app = Inl err"
  shows "\<exists>res. CompareAppState m app project revision source noCache localManifests = Inr (res, None)
    \<and> map_option ss_Status (syncStatus res) = Some SyncStatusCodeUnknown
    \<and> map_option ss_ComparedTo (syncStatus res)
        = Some \<lparr>Source = source, Destination = appDestination app\<rparr>
    \<and> map_option hs_Status (healthStatus res) = Some HealthStatusUnknown
    \<and> resources res = []
    \<and> managedResources res = []"
  using assms by (simp add: CompareAppState_def)

theorem CompareAppState_settings_error_witness:
  "map_sum id
     (\<lambda>(res, conditions).
        (map_option ss_Status (syncStatus res), map_option hs_Status (healthStatus res),
         resources res, managedResources res, conditions))
     (CompareAppState manager_no_settings app_example project_permissive [] source_example False [])
     = Inr (Some SyncStatusCodeUnknown, Some HealthStatusUnknown, [], [], None)"
proof -
  have "getComparisonSettings manager_no_settings app_example = Inl ''configmap argocd-cm not found''"
    by code_simp
  from CompareAppState_settings_error [OF this, of project_permissive "[]" source_example False "[]"]
  show ?thesis
    by auto
qed

end
